theory Spec2Isabelle
  imports Complex_Main "HOL-Library.Monad_Syntax"
begin

section \<open>Numbers, as the carbonate functions see them\<close>

text \<open>
  The functions of \<^verbatim>\<open>carbon_fns.py\<close> are duck-typed: the same arithmetic expression runs on
  plain floats and on numbers that carry an uncertainty (the \<^verbatim>\<open>uncertainties\<close> package), whose
  operators are overloaded. The model makes the arithmetic a parameter: a record of the
  operations a number type offers. Floats are read as real numbers (exact arithmetic).

  Division is the only operation that can fail. \<open>None\<close> is the outcome "a divisor was
  zero": Python floats and uncertain numbers raise \<^verbatim>\<open>ZeroDivisionError\<close> there, numpy floats
  produce a non-finite intermediate value with a warning.
\<close>

record 'a numeric =
  n_lit :: "real \<Rightarrow> 'a"
  n_add :: "'a \<Rightarrow> 'a \<Rightarrow> 'a"
  n_sub :: "'a \<Rightarrow> 'a \<Rightarrow> 'a"
  n_mul :: "'a \<Rightarrow> 'a \<Rightarrow> 'a"
  n_div :: "'a \<Rightarrow> 'a \<Rightarrow> 'a option"
  n_pow :: "'a \<Rightarrow> nat \<Rightarrow> 'a"
  ch :: "'a \<Rightarrow> 'a"
  nominal_value :: "'a \<Rightarrow> real"

text \<open>Float division, in exact arithmetic: a zero divisor is the failure.\<close>

definition fdiv :: "real \<Rightarrow> real \<Rightarrow> real option" where
  "fdiv a b = (if b = 0 then None else Some (a / b))"

text \<open>
  Modelled from the spec: \<^verbatim>\<open>ch\<close> lives in \<^verbatim>\<open>cbsyst.boron_fns\<close>, which is not among the
  sources; the spec gives it as the converter from pH to hydrogen-ion concentration,
  \<open>H = 10^-pH\<close>.
\<close>

definition ch_float :: "real \<Rightarrow> real" where
  "ch_float pH = 10 powr (- pH)"

text \<open>Plain floats: every operation is the real one, the nominal value is the number.\<close>

definition floats :: "real numeric" where
  "floats = \<lparr> n_lit = (\<lambda>c. c), n_add = (+), n_sub = (-), n_mul = (*), n_div = fdiv,
              n_pow = (^), ch = ch_float, nominal_value = (\<lambda>x. x) \<rparr>"

text \<open>The constants bundle: read only, never computed here.\<close>

record 'a Ks =
  K1 :: 'a
  K2 :: 'a
  KB :: 'a
  KW :: 'a

section \<open>Concentration converters\<close>

definition cCO2 :: "('a, 'z) numeric_scheme \<Rightarrow> 'a \<Rightarrow> 'a \<Rightarrow> 'a Ks \<Rightarrow> 'a option" where
  "cCO2 N H DIC Ks = do {
     a \<leftarrow> n_div N (K1 Ks) H;
     b \<leftarrow> n_div N (n_mul N (K1 Ks) (K2 Ks)) (n_pow N H 2);
     n_div N DIC (n_add N (n_add N (n_lit N 1) a) b)
   }"

definition cHCO3 :: "('a, 'z) numeric_scheme \<Rightarrow> 'a \<Rightarrow> 'a \<Rightarrow> 'a Ks \<Rightarrow> 'a option" where
  "cHCO3 N H DIC Ks = do {
     a \<leftarrow> n_div N H (K1 Ks);
     b \<leftarrow> n_div N (K2 Ks) H;
     n_div N DIC (n_add N (n_add N (n_lit N 1) a) b)
   }"

definition cCO3 :: "('a, 'z) numeric_scheme \<Rightarrow> 'a \<Rightarrow> 'a \<Rightarrow> 'a Ks \<Rightarrow> 'a option" where
  "cCO3 N H DIC Ks = do {
     a \<leftarrow> n_div N H (K2 Ks);
     b \<leftarrow> n_div N (n_pow N H 2) (n_mul N (K1 Ks) (K2 Ks));
     n_div N DIC (n_add N (n_add N (n_lit N 1) a) b)
   }"

definition cTA :: "('a, 'z) numeric_scheme \<Rightarrow> 'a \<Rightarrow> 'a \<Rightarrow> 'a \<Rightarrow> 'a Ks \<Rightarrow> 'a option" where
  "cTA N CO2 H BT Ks = do {
     a \<leftarrow> n_div N (K1 Ks) H;
     b \<leftarrow> n_div N (n_mul N (n_mul N (n_lit N 2) (K1 Ks)) (K2 Ks)) (n_pow N H 2);
     c \<leftarrow> n_div N (n_mul N BT (KB Ks)) (n_add N (KB Ks) H);
     d \<leftarrow> n_div N (KW Ks) H;
     Some (n_sub N (n_add N (n_add N (n_mul N CO2 (n_add N a b)) c) d) H)
   }"

section \<open>Direct-formula solvers (pH known)\<close>

definition CO2_pH :: "('a, 'z) numeric_scheme \<Rightarrow> 'a \<Rightarrow> 'a \<Rightarrow> 'a Ks \<Rightarrow> 'a option" where
  "CO2_pH N CO2 pH Ks = do {
     let h = ch N pH;
     a \<leftarrow> n_div N (K1 Ks) h;
     b \<leftarrow> n_div N (n_mul N (K1 Ks) (K2 Ks)) (n_pow N h 2);
     Some (n_mul N CO2 (n_add N (n_add N (n_lit N 1) a) b))
   }"

definition pH_HCO3 :: "('a, 'z) numeric_scheme \<Rightarrow> 'a \<Rightarrow> 'a \<Rightarrow> 'a Ks \<Rightarrow> 'a option" where
  "pH_HCO3 N pH HCO3 Ks = do {
     let h = ch N pH;
     a \<leftarrow> n_div N h (K1 Ks);
     b \<leftarrow> n_div N (K2 Ks) h;
     Some (n_mul N HCO3 (n_add N (n_add N (n_lit N 1) a) b))
   }"

definition pH_CO3 :: "('a, 'z) numeric_scheme \<Rightarrow> 'a \<Rightarrow> 'a \<Rightarrow> 'a Ks \<Rightarrow> 'a option" where
  "pH_CO3 N pH CO3 Ks = do {
     let h = ch N pH;
     a \<leftarrow> n_div N h (K2 Ks);
     b \<leftarrow> n_div N (n_pow N h 2) (n_mul N (K1 Ks) (K2 Ks));
     Some (n_mul N CO3 (n_add N (n_add N (n_lit N 1) a) b))
   }"

definition pH_TA :: "('a, 'z) numeric_scheme \<Rightarrow> 'a \<Rightarrow> 'a \<Rightarrow> 'a \<Rightarrow> 'a Ks \<Rightarrow> 'a option" where
  "pH_TA N pH TA BT Ks = do {
     let h = ch N pH;
     a \<leftarrow> n_div N (n_mul N (KB Ks) BT) (n_add N (KB Ks) h);
     b \<leftarrow> n_div N (KW Ks) h;
     c \<leftarrow> n_div N (K1 Ks) h;
     d \<leftarrow> n_div N (n_mul N (n_mul N (n_lit N 2) (K1 Ks)) (K2 Ks)) (n_pow N h 2);
     n_div N (n_add N (n_sub N (n_sub N TA a) b) h) (n_add N c d)
   }"

definition pH_DIC :: "('a, 'z) numeric_scheme \<Rightarrow> 'a \<Rightarrow> 'a \<Rightarrow> 'a Ks \<Rightarrow> 'a option" where
  "pH_DIC N pH DIC Ks = do {
     let h = ch N pH;
     a \<leftarrow> n_div N (K1 Ks) h;
     b \<leftarrow> n_div N (n_mul N (K1 Ks) (K2 Ks)) (n_pow N h 2);
     n_div N DIC (n_add N (n_add N (n_lit N 1) a) b)
   }"

section \<open>Helper functions\<close>

text \<open>
  A species input is a scalar or a (one-dimensional) array; its elements are independent
  systems. \<^verbatim>\<open>np.size\<close> of a scalar is 1, of an array its number of elements.
\<close>

datatype 'a nd = Scalar 'a | Array "'a list"

fun np_size :: "'a nd \<Rightarrow> nat" where
  "np_size (Scalar x) = 1"
| "np_size (Array xs) = length xs"

text \<open>\<^verbatim>\<open>max\<close> of the sizes; Python's \<^verbatim>\<open>max\<close> of an empty list raises, which is \<open>None\<close>.\<close>

fun lens :: "'a nd list \<Rightarrow> nat option" where
  "lens [] = None"
| "lens (i # it) = Some (fold max (map np_size it) (np_size i))"

text \<open>The nominal value of every element of every item, shapes kept.\<close>

definition noms :: "('a, 'z) numeric_scheme \<Rightarrow> 'a nd list \<Rightarrow> real nd list" where
  "noms N it = map (map_nd (nominal_value N)) it"

section \<open>Residuals of the implicit solvers\<close>

text \<open>
  The residuals run inside the root-finder, on nominal values: plain floats. Each is given
  for one element \<open>h\<close> of the unknown; numpy applies it to every element.
\<close>

definition zero_CO2_HCO3 :: "real \<Rightarrow> real \<Rightarrow> real \<Rightarrow> real Ks \<Rightarrow> real option" where
  "zero_CO2_HCO3 h CO2 HCO3 Ks = do {
     let LH = CO2 * (h\<^sup>2 + K1 Ks * h + K1 Ks * K2 Ks);
     a \<leftarrow> fdiv (h ^ 3) (K1 Ks);
     let RH = HCO3 * (h\<^sup>2 + a + K2 Ks * h);
     Some (LH - RH)
   }"

definition zero_CO2_CO3 :: "real \<Rightarrow> real \<Rightarrow> real \<Rightarrow> real Ks \<Rightarrow> real option" where
  "zero_CO2_CO3 h CO2 CO3 Ks = do {
     let LH = CO2 * (h\<^sup>2 + K1 Ks * h + K1 Ks * K2 Ks);
     a \<leftarrow> fdiv (h ^ 3) (K2 Ks);
     b \<leftarrow> fdiv (h ^ 4) (K1 Ks * K2 Ks);
     let RH = CO3 * (h\<^sup>2 + a + b);
     Some (LH - RH)
   }"

definition zero_CO2_TA :: "real \<Rightarrow> real \<Rightarrow> real \<Rightarrow> real \<Rightarrow> real Ks \<Rightarrow> real option" where
  "zero_CO2_TA h CO2 TA BT Ks = do {
     let LH = TA * h\<^sup>2 * (KB Ks + h);
     let RH = CO2 * (KB Ks + h) * (K1 Ks * h + 2 * K1 Ks * K2 Ks) +
              h\<^sup>2 * KB Ks * BT + (KB Ks + h) * (KW Ks * h - h ^ 3);
     Some (LH - RH)
   }"

definition zero_CO2_DIC :: "real \<Rightarrow> real \<Rightarrow> real \<Rightarrow> real Ks \<Rightarrow> real option" where
  "zero_CO2_DIC h CO2 DIC Ks = do {
     let LH = DIC * h\<^sup>2;
     let RH = CO2 * (h\<^sup>2 + K1 Ks * h + K1 Ks * K2 Ks);
     Some (LH - RH)
   }"

definition zero_HCO3_CO3 :: "real \<Rightarrow> real \<Rightarrow> real \<Rightarrow> real Ks \<Rightarrow> real option" where
  "zero_HCO3_CO3 h HCO3 CO3 Ks = do {
     a \<leftarrow> fdiv (h\<^sup>2) (K1 Ks);
     let LH = HCO3 * (h + a + K2 Ks);
     b \<leftarrow> fdiv (h\<^sup>2) (K2 Ks);
     c \<leftarrow> fdiv (h ^ 3) (K1 Ks * K2 Ks);
     let RH = CO3 * (h + b + c);
     Some (LH - RH)
   }"

definition zero_HCO3_TA :: "real \<Rightarrow> real \<Rightarrow> real \<Rightarrow> real \<Rightarrow> real Ks \<Rightarrow> real option" where
  "zero_HCO3_TA h HCO3 TA BT Ks = do {
     let LH = TA * (KB Ks + h) * (h ^ 3 + K1 Ks * h\<^sup>2 + K1 Ks * K2 Ks * h);
     a \<leftarrow> fdiv (h\<^sup>2) (K1 Ks);
     let RH = HCO3 * (h + a + K2 Ks) *
                ((KB Ks + 2 * K2 Ks) * K1 Ks * h + 2 * KB Ks * K1 Ks * K2 Ks + K1 Ks * h\<^sup>2) +
              (h\<^sup>2 + K1 Ks * h + K1 Ks * K2 Ks) *
                (KB Ks * BT * h + KW Ks * KB Ks + KW Ks * h - KB Ks * h\<^sup>2 - h ^ 3);
     Some (LH - RH)
   }"

definition zero_HCO3_DIC :: "real \<Rightarrow> real \<Rightarrow> real \<Rightarrow> real Ks \<Rightarrow> real option" where
  "zero_HCO3_DIC h HCO3 DIC Ks = do {
     a \<leftarrow> fdiv (h\<^sup>2) (K1 Ks);
     let LH = HCO3 * (h + a + K2 Ks);
     let RH = h * DIC;
     Some (LH - RH)
   }"

definition zero_CO3_TA :: "real \<Rightarrow> real \<Rightarrow> real \<Rightarrow> real \<Rightarrow> real Ks \<Rightarrow> real option" where
  "zero_CO3_TA h CO3 TA BT Ks = do {
     let LH = TA * (KB Ks + h) * (h ^ 3 + K1 Ks * h\<^sup>2 + K1 Ks * K2 Ks * h);
     a \<leftarrow> fdiv (h\<^sup>2) (K2 Ks);
     b \<leftarrow> fdiv (h ^ 3) (K1 Ks * K2 Ks);
     let RH = CO3 * (h + a + b) *
                (K1 Ks * h\<^sup>2 + K1 Ks * h * (KB Ks + 2 * K2 Ks) + 2 * KB Ks * K1 Ks * K2 Ks) +
              (h\<^sup>2 + K1 Ks * h + K1 Ks * K2 Ks) *
                (KB Ks * BT * h + KW Ks * KB Ks + KW Ks * h - KB Ks * h\<^sup>2 - h ^ 3);
     Some (LH - RH)
   }"

definition zero_CO3_DIC :: "real \<Rightarrow> real \<Rightarrow> real \<Rightarrow> real Ks \<Rightarrow> real option" where
  "zero_CO3_DIC h CO3 DIC Ks = do {
     a \<leftarrow> fdiv h (K2 Ks);
     b \<leftarrow> fdiv (h\<^sup>2) (K1 Ks * K2 Ks);
     let LH = CO3 * (1 + a + b);
     let RH = DIC;
     Some (LH - RH)
   }"

definition zero_TA_DIC :: "real \<Rightarrow> real \<Rightarrow> real \<Rightarrow> real \<Rightarrow> real Ks \<Rightarrow> real option" where
  "zero_TA_DIC h TA DIC BT Ks = do {
     let LH = DIC * (KB Ks + h) * (K1 Ks * h\<^sup>2 + 2 * K1 Ks * K2 Ks * h);
     let RH = (TA * (KB Ks + h) * h - KB Ks * BT * h - KW Ks * (KB Ks + h) +
               (KB Ks + h) * h\<^sup>2) *
              (h\<^sup>2 + K1 Ks * h + K1 Ks * K2 Ks);
     Some (LH - RH)
   }"

section \<open>Implicit-equation solvers (pH unknown)\<close>

text \<open>
  \<^verbatim>\<open>scipy.optimize.fsolve\<close> is external: the solvers take it as the parameter \<open>fsolve\<close>, called
  as \<open>fsolve func x0 args xtol\<close>, and return what it returns. \<open>None\<close> is a Python exception
  raised before the call (an empty \<^verbatim>\<open>max\<close>, an unpacking of the wrong length).
\<close>

type_synonym residual2 = "real \<Rightarrow> real \<Rightarrow> real \<Rightarrow> real Ks \<Rightarrow> real option"
type_synonym residual3 = "real \<Rightarrow> real \<Rightarrow> real \<Rightarrow> real \<Rightarrow> real Ks \<Rightarrow> real option"
type_synonym args2 = "real nd \<times> real nd \<times> real Ks"
type_synonym args3 = "real nd \<times> real nd \<times> real nd \<times> real Ks"

definition CO2_HCO3 ::
  "('a, 'z) numeric_scheme \<Rightarrow> (residual2 \<Rightarrow> real list \<Rightarrow> args2 \<Rightarrow> real \<Rightarrow> 'r) \<Rightarrow>
   'a nd \<Rightarrow> 'a nd \<Rightarrow> real Ks \<Rightarrow> 'r option" where
  "CO2_HCO3 N fsolve CO2 HCO3 Ks = do {
     L \<leftarrow> lens [CO2, HCO3];
     case noms N [CO2, HCO3] of
       [CO2', HCO3'] \<Rightarrow>
         Some (fsolve zero_CO2_HCO3 (replicate L 1) (CO2', HCO3', Ks) (1 / 10 ^ 12))
     | _ \<Rightarrow> None
   }"

definition CO2_CO3 ::
  "('a, 'z) numeric_scheme \<Rightarrow> (residual2 \<Rightarrow> real list \<Rightarrow> args2 \<Rightarrow> real \<Rightarrow> 'r) \<Rightarrow>
   'a nd \<Rightarrow> 'a nd \<Rightarrow> real Ks \<Rightarrow> 'r option" where
  "CO2_CO3 N fsolve CO2 CO3 Ks = do {
     L \<leftarrow> lens [CO2, CO3];
     case noms N [CO2, CO3] of
       [CO2', CO3'] \<Rightarrow>
         Some (fsolve zero_CO2_CO3 (replicate L 1) (CO2', CO3', Ks) (1 / 10 ^ 12))
     | _ \<Rightarrow> None
   }"

definition CO2_TA ::
  "('a, 'z) numeric_scheme \<Rightarrow> (residual3 \<Rightarrow> real list \<Rightarrow> args3 \<Rightarrow> real \<Rightarrow> 'r) \<Rightarrow>
   'a nd \<Rightarrow> 'a nd \<Rightarrow> 'a nd \<Rightarrow> real Ks \<Rightarrow> 'r option" where
  "CO2_TA N fsolve CO2 TA BT Ks = do {
     L \<leftarrow> lens [CO2, TA, BT];
     case noms N [CO2, TA, BT] of
       [CO2', TA', BT'] \<Rightarrow>
         Some (fsolve zero_CO2_TA (replicate L 1) (CO2', TA', BT', Ks) (1 / 10 ^ 12))
     | _ \<Rightarrow> None
   }"

definition CO2_DIC ::
  "('a, 'z) numeric_scheme \<Rightarrow> (residual2 \<Rightarrow> real list \<Rightarrow> args2 \<Rightarrow> real \<Rightarrow> 'r) \<Rightarrow>
   'a nd \<Rightarrow> 'a nd \<Rightarrow> real Ks \<Rightarrow> 'r option" where
  "CO2_DIC N fsolve CO2 DIC Ks = do {
     L \<leftarrow> lens [CO2, DIC];
     case noms N [CO2, DIC] of
       [CO2', DIC'] \<Rightarrow>
         Some (fsolve zero_CO2_DIC (replicate L 1) (CO2', DIC', Ks) (1 / 10 ^ 12))
     | _ \<Rightarrow> None
   }"

definition HCO3_CO3 ::
  "('a, 'z) numeric_scheme \<Rightarrow> (residual2 \<Rightarrow> real list \<Rightarrow> args2 \<Rightarrow> real \<Rightarrow> 'r) \<Rightarrow>
   'a nd \<Rightarrow> 'a nd \<Rightarrow> real Ks \<Rightarrow> 'r option" where
  "HCO3_CO3 N fsolve HCO3 CO3 Ks = do {
     L \<leftarrow> lens [HCO3, CO3];
     case noms N [HCO3, CO3] of
       [HCO3', CO3'] \<Rightarrow>
         Some (fsolve zero_HCO3_CO3 (replicate L 1) (HCO3', CO3', Ks) (1 / 10 ^ 12))
     | _ \<Rightarrow> None
   }"

definition HCO3_TA ::
  "('a, 'z) numeric_scheme \<Rightarrow> (residual3 \<Rightarrow> real list \<Rightarrow> args3 \<Rightarrow> real \<Rightarrow> 'r) \<Rightarrow>
   'a nd \<Rightarrow> 'a nd \<Rightarrow> 'a nd \<Rightarrow> real Ks \<Rightarrow> 'r option" where
  "HCO3_TA N fsolve HCO3 TA BT Ks = do {
     L \<leftarrow> lens [HCO3, TA, BT];
     case noms N [HCO3, TA, BT] of
       [HCO3', TA', BT'] \<Rightarrow>
         Some (fsolve zero_HCO3_TA (replicate L 1) (HCO3', TA', BT', Ks) (1 / 10 ^ 12))
     | _ \<Rightarrow> None
   }"

definition HCO3_DIC ::
  "('a, 'z) numeric_scheme \<Rightarrow> (residual2 \<Rightarrow> real list \<Rightarrow> args2 \<Rightarrow> real \<Rightarrow> 'r) \<Rightarrow>
   'a nd \<Rightarrow> 'a nd \<Rightarrow> real Ks \<Rightarrow> 'r option" where
  "HCO3_DIC N fsolve HCO3 DIC Ks = do {
     L \<leftarrow> lens [HCO3, DIC];
     case noms N [HCO3, DIC] of
       [HCO3', DIC'] \<Rightarrow>
         Some (fsolve zero_HCO3_DIC (replicate L 0) (HCO3', DIC', Ks) (1 / 10 ^ 12))
     | _ \<Rightarrow> None
   }"

definition CO3_TA ::
  "('a, 'z) numeric_scheme \<Rightarrow> (residual3 \<Rightarrow> real list \<Rightarrow> args3 \<Rightarrow> real \<Rightarrow> 'r) \<Rightarrow>
   'a nd \<Rightarrow> 'a nd \<Rightarrow> 'a nd \<Rightarrow> real Ks \<Rightarrow> 'r option" where
  "CO3_TA N fsolve CO3 TA BT Ks = do {
     L \<leftarrow> lens [CO3, TA, BT];
     case noms N [CO3, TA, BT] of
       [CO3', TA', BT'] \<Rightarrow>
         Some (fsolve zero_CO3_TA (replicate L 1) (CO3', TA', BT', Ks) (1 / 10 ^ 12))
     | _ \<Rightarrow> None
   }"

definition CO3_DIC ::
  "('a, 'z) numeric_scheme \<Rightarrow> (residual2 \<Rightarrow> real list \<Rightarrow> args2 \<Rightarrow> real \<Rightarrow> 'r) \<Rightarrow>
   'a nd \<Rightarrow> 'a nd \<Rightarrow> real Ks \<Rightarrow> 'r option" where
  "CO3_DIC N fsolve CO3 DIC Ks = do {
     L \<leftarrow> lens [CO3, DIC];
     case noms N [CO3, DIC] of
       [CO3', DIC'] \<Rightarrow>
         Some (fsolve zero_CO3_DIC (replicate L 1) (CO3', DIC', Ks) (1 / 10 ^ 12))
     | _ \<Rightarrow> None
   }"

definition TA_DIC ::
  "('a, 'z) numeric_scheme \<Rightarrow> (residual3 \<Rightarrow> real list \<Rightarrow> args3 \<Rightarrow> real \<Rightarrow> 'r) \<Rightarrow>
   'a nd \<Rightarrow> 'a nd \<Rightarrow> 'a nd \<Rightarrow> real Ks \<Rightarrow> 'r option" where
  "TA_DIC N fsolve TA DIC BT Ks = do {
     L \<leftarrow> lens [TA, DIC, BT];
     case noms N [TA, DIC, BT] of
       [TA', DIC', BT'] \<Rightarrow>
         Some (fsolve zero_TA_DIC (replicate L 1) (TA', DIC', BT', Ks) (1 / 10 ^ 12))
     | _ \<Rightarrow> None
   }"

section \<open>Numbers with an uncertainty\<close>

text \<open>
  Modelled from the spec: the \<^verbatim>\<open>uncertainties\<close> package is external; the specification
  describes its numbers as a nominal value with an error, with arithmetic by the standard
  first-order propagation rules and an extraction of the nominal value. Here such a number
  is \<open>nominal + sens * e\<close> for one source of error \<open>e\<close>: \<open>sens\<close> is the derivative with respect
  to the source, and every operation propagates it to first order. Division fails where
  the nominal value of the divisor is zero.
\<close>

record ufloat =
  nominal :: real
  sens :: real

definition u_div :: "ufloat \<Rightarrow> ufloat \<Rightarrow> ufloat option" where
  "u_div a b = (if nominal b = 0 then None
     else Some \<lparr> nominal = nominal a / nominal b,
                 sens = (sens a * nominal b - nominal a * sens b) / (nominal b)\<^sup>2 \<rparr>)"

definition ufloats :: "ufloat numeric" where
  "ufloats = \<lparr>
     n_lit = (\<lambda>c. \<lparr> nominal = c, sens = 0 \<rparr>),
     n_add = (\<lambda>a b. \<lparr> nominal = nominal a + nominal b, sens = sens a + sens b \<rparr>),
     n_sub = (\<lambda>a b. \<lparr> nominal = nominal a - nominal b, sens = sens a - sens b \<rparr>),
     n_mul = (\<lambda>a b. \<lparr> nominal = nominal a * nominal b,
                       sens = nominal a * sens b + nominal b * sens a \<rparr>),
     n_div = u_div,
     n_pow = (\<lambda>a k. \<lparr> nominal = nominal a ^ k,
                       sens = of_nat k * nominal a ^ (k - 1) * sens a \<rparr>),
     ch = (\<lambda>a. \<lparr> nominal = ch_float (nominal a),
                   sens = - ln 10 * ch_float (nominal a) * sens a \<rparr>),
     nominal_value = nominal \<rparr>"

text \<open>
  The value of an uncertain number when its source of error takes the value \<open>e\<close>. A result
  propagates uncertainty to first order when its \<open>sens\<close> is the derivative, at \<open>e = 0\<close>, of
  the formula evaluated on these values.
\<close>

definition u_at :: "real \<Rightarrow> ufloat \<Rightarrow> real" where
  "u_at e u = nominal u + sens u * e"

section \<open>Polynomials in the unknown\<close>

text \<open>
  A polynomial is given by its list of coefficients, lowest degree first; \<open>poly_eval\<close> is
  its value (Horner's scheme). \<open>padd\<close>, \<open>smul\<close> and \<open>pmul\<close> are sum, scaling and product
  on coefficient lists.
\<close>

fun poly_eval :: "real list \<Rightarrow> real \<Rightarrow> real" where
  "poly_eval [] h = 0"
| "poly_eval (c # cs) h = c + h * poly_eval cs h"

fun padd :: "real list \<Rightarrow> real list \<Rightarrow> real list" where
  "padd [] q = q"
| "padd (a # p) [] = a # p"
| "padd (a # p) (b # q) = (a + b) # padd p q"

definition smul :: "real \<Rightarrow> real list \<Rightarrow> real list" where
  "smul c p = map ((*) c) p"

fun pmul :: "real list \<Rightarrow> real list \<Rightarrow> real list" where
  "pmul [] q = []"
| "pmul (a # p) q = padd (smul a q) (0 # pmul p q)"

definition polyfun :: "(real \<Rightarrow> real) \<Rightarrow> bool" where
  "polyfun f \<longleftrightarrow> (\<exists>cs. \<forall>h. f h = poly_eval cs h)"

section \<open>Properties\<close>

lemma cCO2_floats:
  assumes "H \<noteq> 0" "1 + K1 Ks / H + K1 Ks * K2 Ks / H\<^sup>2 \<noteq> 0"
  shows "cCO2 floats H DIC Ks = Some (DIC / (1 + K1 Ks / H + K1 Ks * K2 Ks / H\<^sup>2))"
  using assms by (simp add: cCO2_def floats_def fdiv_def)

lemma cHCO3_floats:
  assumes "H \<noteq> 0" "K1 Ks \<noteq> 0" "1 + H / K1 Ks + K2 Ks / H \<noteq> 0"
  shows "cHCO3 floats H DIC Ks = Some (DIC / (1 + H / K1 Ks + K2 Ks / H))"
  using assms by (simp add: cHCO3_def floats_def fdiv_def)

lemma cCO3_floats:
  assumes "K1 Ks \<noteq> 0" "K2 Ks \<noteq> 0" "1 + H / K2 Ks + H\<^sup>2 / (K1 Ks * K2 Ks) \<noteq> 0"
  shows "cCO3 floats H DIC Ks = Some (DIC / (1 + H / K2 Ks + H\<^sup>2 / (K1 Ks * K2 Ks)))"
  using assms by (simp add: cCO3_def floats_def fdiv_def)

lemma conservation_aux:
  fixes H k1 k2 DIC :: real
  assumes "0 < H" "0 < k1" "0 < k2"
  shows "DIC / (1 + k1 / H + k1 * k2 / H\<^sup>2) + DIC / (1 + H / k1 + k2 / H)
           + DIC / (1 + H / k2 + H\<^sup>2 / (k1 * k2)) = DIC"
proof -
  define P where "P = H\<^sup>2 + k1 * H + k1 * k2"
  have P: "0 < P" using assms by (simp add: P_def add_pos_pos)
  have d1: "1 + k1 / H + k1 * k2 / H\<^sup>2 = P / H\<^sup>2"
    using assms by (simp add: P_def field_simps power2_eq_square)
  have d2: "1 + H / k1 + k2 / H = P / (k1 * H)"
    using assms by (simp add: P_def field_simps power2_eq_square)
  have d3: "1 + H / k2 + H\<^sup>2 / (k1 * k2) = P / (k1 * k2)"
    using assms by (simp add: P_def field_simps power2_eq_square)
  have "DIC / (P / H\<^sup>2) + DIC / (P / (k1 * H)) + DIC / (P / (k1 * k2)) = DIC * (H\<^sup>2 + k1 * H + k1 * k2) / P"
    using P by (simp add: field_simps)
  also have "\<dots> = DIC" using P by (simp add: P_def)
  finally show ?thesis by (simp add: d1 d2 d3)
qed

lemma denoms_pos:
  fixes H k1 k2 :: real
  assumes "0 < H" "0 < k1" "0 < k2"
  shows "0 < 1 + k1 / H + k1 * k2 / H\<^sup>2" "0 < 1 + H / k1 + k2 / H"
        "0 < 1 + H / k2 + H\<^sup>2 / (k1 * k2)"
  using assms by (simp_all add: add_pos_pos)

text \<open>
  C2. With positive \<open>H\<close>, \<open>K1\<close> and \<open>K2\<close> the three converters all return a value, and the
  three values add up to the \<open>DIC\<close> they were given: carbon is conserved exactly.
\<close>

theorem converters_conserve_DIC:
  assumes "0 < H" "0 < K1 Ks" "0 < K2 Ks"
  shows "\<exists>a b c. cCO2 floats H DIC Ks = Some a \<and> cHCO3 floats H DIC Ks = Some b
           \<and> cCO3 floats H DIC Ks = Some c \<and> a + b + c = DIC"
proof -
  note d = denoms_pos [OF assms]
  have a: "cCO2 floats H DIC Ks = Some (DIC / (1 + K1 Ks / H + K1 Ks * K2 Ks / H\<^sup>2))"
    using assms d(1) by (intro cCO2_floats) simp_all
  have b: "cHCO3 floats H DIC Ks = Some (DIC / (1 + H / K1 Ks + K2 Ks / H))"
    using assms d(2) by (intro cHCO3_floats) simp_all
  have c: "cCO3 floats H DIC Ks = Some (DIC / (1 + H / K2 Ks + H\<^sup>2 / (K1 Ks * K2 Ks)))"
    using assms d(3) by (intro cCO3_floats) simp_all
  show ?thesis unfolding a b c using conservation_aux [OF assms] by simp
qed

theorem converters_conserve_DIC_witness:
  "\<exists>a b c. cCO2 floats 1 3 \<lparr>K1 = 1, K2 = 1, KB = 1, KW = 1\<rparr> = Some a
     \<and> cHCO3 floats 1 3 \<lparr>K1 = 1, K2 = 1, KB = 1, KW = 1\<rparr> = Some b
     \<and> cCO3 floats 1 3 \<lparr>K1 = 1, K2 = 1, KB = 1, KW = 1\<rparr> = Some c \<and> a + b + c = 3"
  using converters_conserve_DIC [of 1 "\<lparr>K1 = 1, K2 = 1, KB = 1, KW = 1\<rparr>" 3] by simp

lemma ch_float_pos: "0 < ch_float pH"
  by (simp add: ch_float_def)

text \<open>
  C1. \<open>pH_TA\<close> on floats is the closed form
  \<open>(TA - KB*BT/(KB+H) - KW/H + H) / (K1/H + 2*K1*K2/H^2)\<close> with \<open>H = 10^-pH\<close> taken from the
  pH converter: one expression, no root-finder. \<open>H\<close> is positive, so the only divisors that
  can vanish are \<open>KB + H\<close> and the denominator, where the division fails.
\<close>

theorem pH_TA_closed_form:
  fixes pH TA BT :: real and Ks :: "real Ks"
  defines "H \<equiv> 10 powr (- pH)"
  shows "pH_TA floats pH TA BT Ks =
           (if KB Ks + H = 0 \<or> K1 Ks / H + 2 * K1 Ks * K2 Ks / H\<^sup>2 = 0 then None
            else Some ((TA - KB Ks * BT / (KB Ks + H) - KW Ks / H + H) /
                       (K1 Ks / H + 2 * K1 Ks * K2 Ks / H\<^sup>2)))"
proof -
  have H: "H \<noteq> 0" "ch_float pH = H" by (simp_all add: H_def ch_float_def)
  show ?thesis using H(1) by (simp add: pH_TA_def floats_def fdiv_def H(2))
qed

theorem pH_TA_closed_form_witness:
  "pH_TA floats 0 5 2 \<lparr>K1 = 1, K2 = 1, KB = 1, KW = 1\<rparr> = Some (4 / 3)"
  using pH_TA_closed_form [of 0 5 2 "\<lparr>K1 = 1, K2 = 1, KB = 1, KW = 1\<rparr>"] by simp

text \<open>
  C3. Round trip of the pair \<open>CO2_pH\<close>, \<open>pH_DIC\<close>: with positive \<open>K1\<close> and \<open>K2\<close> (and
  \<open>H = 10^-pH\<close>, positive by itself), \<open>CO2_pH\<close> returns a DIC, and \<open>pH_DIC\<close> at the same pH
  gives back exactly the CO2 it came from.
\<close>

theorem CO2_pH_then_pH_DIC:
  assumes "0 < K1 Ks" "0 < K2 Ks"
  shows "\<exists>DIC. CO2_pH floats CO2 pH Ks = Some DIC \<and> pH_DIC floats pH DIC Ks = Some CO2"
proof -
  define H where "H = ch_float pH"
  have H: "0 < H" by (simp add: H_def ch_float_pos)
  define D where "D = 1 + K1 Ks / H + K1 Ks * K2 Ks / H\<^sup>2"
  have D: "0 < D" using H assms by (simp add: D_def add_pos_pos)
  have 1: "CO2_pH floats CO2 pH Ks = Some (CO2 * D)"
    using H by (simp add: CO2_pH_def floats_def fdiv_def H_def [symmetric] D_def)
  have 2: "pH_DIC floats pH (CO2 * D) Ks = Some (CO2 * D / D)"
    using H D by (simp add: pH_DIC_def floats_def fdiv_def H_def [symmetric] D_def [symmetric])
  show ?thesis using 1 2 D by simp
qed

theorem CO2_pH_then_pH_DIC_witness:
  "\<exists>DIC. CO2_pH floats 7 0 \<lparr>K1 = 1, K2 = 1, KB = 1, KW = 1\<rparr> = Some DIC
     \<and> pH_DIC floats 0 DIC \<lparr>K1 = 1, K2 = 1, KB = 1, KW = 1\<rparr> = Some 7"
  using CO2_pH_then_pH_DIC [of "\<lparr>K1 = 1, K2 = 1, KB = 1, KW = 1\<rparr>" 7 0] by simp

text \<open>
  C4. With nonzero \<open>K1\<close> and \<open>K2\<close> the residual of \<open>HCO3_TA\<close> is the left side minus the
  right side of the HCO3 and TA equation of the specification, for every \<open>h\<close>.
\<close>

theorem zero_HCO3_TA_equation:
  assumes "K1 Ks \<noteq> 0" "K2 Ks \<noteq> 0"
  shows "zero_HCO3_TA h HCO3 TA BT Ks =
     Some (TA * (KB Ks + h) * (h ^ 3 + K1 Ks * h\<^sup>2 + K1 Ks * K2 Ks * h) -
           (HCO3 * (h + h\<^sup>2 / K1 Ks + K2 Ks) *
              ((KB Ks + 2 * K2 Ks) * K1 Ks * h + 2 * KB Ks * K1 Ks * K2 Ks + K1 Ks * h\<^sup>2) +
            (h\<^sup>2 + K1 Ks * h + K1 Ks * K2 Ks) *
              (KB Ks * BT * h + KW Ks * KB Ks + KW Ks * h - KB Ks * h\<^sup>2 - h ^ 3)))"
  using assms by (simp add: zero_HCO3_TA_def fdiv_def)

theorem zero_HCO3_TA_equation_witness:
  "zero_HCO3_TA 1 1 1 1 \<lparr>K1 = 1, K2 = 1, KB = 1, KW = 1\<rparr> = Some (- 15)"
  using zero_HCO3_TA_equation [of "\<lparr>K1 = 1, K2 = 1, KB = 1, KW = 1\<rparr>" 1 1 1 1] by simp

lemma cTA_floats:
  assumes "H \<noteq> 0" "KB Ks + H \<noteq> 0"
  shows "cTA floats CO2 H BT Ks =
           Some (CO2 * (K1 Ks / H + 2 * K1 Ks * K2 Ks / H\<^sup>2) + BT * KB Ks / (KB Ks + H)
                 + KW Ks / H - H)"
  using assms by (simp add: cTA_def floats_def fdiv_def)

lemma CO2_TA_residual_aux:
  fixes h kb :: real
  assumes "h \<noteq> 0" "kb + h \<noteq> 0"
  shows "TA * h\<^sup>2 * (kb + h) -
          (CO2 * (kb + h) * (k1 * h + 2 * k1 * k2) + h\<^sup>2 * kb * BT + (kb + h) * (kw * h - h ^ 3))
         = h\<^sup>2 * (kb + h) * (TA - (CO2 * (k1 / h + 2 * k1 * k2 / h\<^sup>2) + BT * kb / (kb + h) + kw / h - h))"
proof -
  have a: "h\<^sup>2 * (kb + h) * (CO2 * (k1 / h + 2 * k1 * k2 / h\<^sup>2)) = CO2 * (kb + h) * (k1 * h + 2 * k1 * k2)"
    using assms(1) by (simp add: field_simps power2_eq_square)
  have b: "h\<^sup>2 * (kb + h) * (BT * kb / (kb + h)) = h\<^sup>2 * kb * BT"
    using assms(2) by simp
  have c: "h\<^sup>2 * (kb + h) * (kw / h - h) = (kb + h) * (kw * h - h ^ 3)"
    using assms(1) by (simp add: field_simps power2_eq_square power3_eq_cube)
  have "h\<^sup>2 * (kb + h) * (TA - (CO2 * (k1 / h + 2 * k1 * k2 / h\<^sup>2) + BT * kb / (kb + h) + kw / h - h))
      = TA * h\<^sup>2 * (kb + h) - (h\<^sup>2 * (kb + h) * (CO2 * (k1 / h + 2 * k1 * k2 / h\<^sup>2))
          + h\<^sup>2 * (kb + h) * (BT * kb / (kb + h)) + h\<^sup>2 * (kb + h) * (kw / h - h))"
    by (simp only: algebra_simps)
  then show ?thesis by (simp only: a b c)
qed

text \<open>
  C9. For \<open>h \<noteq> 0\<close> and \<open>KB + h \<noteq> 0\<close> the residual of \<open>CO2_TA\<close> is
  \<open>h^2 * (KB + h) * (TA - cTA CO2 h BT Ks)\<close>; so for such \<open>h > 0\<close> the residual is zero exactly
  when \<open>cTA\<close> at that \<open>h\<close> gives back the \<open>TA\<close>.
\<close>

theorem zero_CO2_TA_is_cTA_error:
  "(h \<noteq> 0 \<and> KB Ks + h \<noteq> 0 \<longrightarrow>
      (\<exists>ta. cTA floats CO2 h BT Ks = Some ta \<and>
            zero_CO2_TA h CO2 TA BT Ks = Some (h\<^sup>2 * (KB Ks + h) * (TA - ta)))) \<and>
   (0 < h \<and> KB Ks + h \<noteq> 0 \<longrightarrow>
      (zero_CO2_TA h CO2 TA BT Ks = Some 0 \<longleftrightarrow> cTA floats CO2 h BT Ks = Some TA))"
proof -
  have 1: "\<exists>ta. cTA floats CO2 h BT Ks = Some ta \<and>
                 zero_CO2_TA h CO2 TA BT Ks = Some (h\<^sup>2 * (KB Ks + h) * (TA - ta))"
    if "h \<noteq> 0" "KB Ks + h \<noteq> 0"
    using that CO2_TA_residual_aux [OF that, of TA CO2 "K1 Ks" "K2 Ks" BT "KW Ks"]
    by (simp add: cTA_floats zero_CO2_TA_def)
  have 2: "zero_CO2_TA h CO2 TA BT Ks = Some 0 \<longleftrightarrow> cTA floats CO2 h BT Ks = Some TA"
    if h: "0 < h" "KB Ks + h \<noteq> 0"
  proof -
    obtain ta where ta: "cTA floats CO2 h BT Ks = Some ta"
      "zero_CO2_TA h CO2 TA BT Ks = Some (h\<^sup>2 * (KB Ks + h) * (TA - ta))"
      using 1 h by auto
    show ?thesis using h by (auto simp add: ta)
  qed
  show ?thesis using 1 2 by blast
qed

theorem zero_CO2_TA_is_cTA_error_witness:
  "(\<exists>ta. cTA floats 1 1 1 \<lparr>K1 = 1, K2 = 1, KB = 1, KW = 1\<rparr> = Some ta \<and>
         zero_CO2_TA 1 1 (7 / 2) 1 \<lparr>K1 = 1, K2 = 1, KB = 1, KW = 1\<rparr> = Some (2 * (7 / 2 - ta))) \<and>
   (zero_CO2_TA 1 1 (7 / 2) 1 \<lparr>K1 = 1, K2 = 1, KB = 1, KW = 1\<rparr> = Some 0 \<longleftrightarrow>
      cTA floats 1 1 1 \<lparr>K1 = 1, K2 = 1, KB = 1, KW = 1\<rparr> = Some (7 / 2))"
  using zero_CO2_TA_is_cTA_error [of 1 "\<lparr>K1 = 1, K2 = 1, KB = 1, KW = 1\<rparr>" 1 1 "7 / 2"] by simp

lemma poly_eval_padd: "poly_eval (padd p q) h = poly_eval p h + poly_eval q h"
  by (induction p q rule: padd.induct) (simp_all add: algebra_simps)

lemma poly_eval_smul: "poly_eval (smul c p) h = c * poly_eval p h"
  by (induction p) (simp_all add: smul_def algebra_simps)

lemma poly_eval_pmul: "poly_eval (pmul p q) h = poly_eval p h * poly_eval q h"
  by (induction p) (simp_all add: poly_eval_padd poly_eval_smul algebra_simps)

lemma polyfun_const: "polyfun (\<lambda>h. c)"
  unfolding polyfun_def by (rule exI [of _ "[c]"]) simp

lemma polyfun_id: "polyfun (\<lambda>h. h)"
  unfolding polyfun_def by (rule exI [of _ "[0, 1]"]) simp

lemma polyfun_add: "polyfun f \<Longrightarrow> polyfun g \<Longrightarrow> polyfun (\<lambda>h. f h + g h)"
  unfolding polyfun_def by (metis poly_eval_padd)

lemma polyfun_mult: "polyfun f \<Longrightarrow> polyfun g \<Longrightarrow> polyfun (\<lambda>h. f h * g h)"
  unfolding polyfun_def by (metis poly_eval_pmul)

lemma polyfun_diff: "polyfun f \<Longrightarrow> polyfun g \<Longrightarrow> polyfun (\<lambda>h. f h - g h)"
proof -
  assume f: "polyfun f" and g: "polyfun g"
  have "polyfun (\<lambda>h. f h + (- 1) * g h)"
    by (intro polyfun_add polyfun_mult polyfun_const f g)
  then show ?thesis by simp
qed

lemma polyfun_power: "polyfun f \<Longrightarrow> polyfun (\<lambda>h. f h ^ n)"
  by (induction n) (simp_all add: polyfun_const polyfun_mult)

lemma polyfun_divide_const: "polyfun f \<Longrightarrow> polyfun (\<lambda>h. f h / c)"
proof -
  assume f: "polyfun f"
  have "polyfun (\<lambda>h. f h * (1 / c))" by (intro polyfun_mult polyfun_const f)
  then show ?thesis by simp
qed

lemmas polyfun_intros = polyfun_add polyfun_diff polyfun_mult polyfun_divide_const
  polyfun_power polyfun_id polyfun_const

lemma polyfun_SomeI:
  assumes "polyfun f" "\<And>h. r h = Some (f h)"
  shows "\<exists>cs. \<forall>h. r h = Some (poly_eval cs h)"
  using assms unfolding polyfun_def by auto

lemma zero_CO2_HCO3_poly:
  "K1 Ks \<noteq> 0 \<Longrightarrow> \<exists>cs. \<forall>h. zero_CO2_HCO3 h CO2 HCO3 Ks = Some (poly_eval cs h)"
  by (rule polyfun_SomeI [where f = "\<lambda>h. CO2 * (h\<^sup>2 + K1 Ks * h + K1 Ks * K2 Ks) -
         HCO3 * (h\<^sup>2 + h ^ 3 / K1 Ks + K2 Ks * h)"])
     (intro polyfun_intros, simp add: zero_CO2_HCO3_def fdiv_def)

lemma zero_CO2_CO3_poly:
  "K1 Ks \<noteq> 0 \<Longrightarrow> K2 Ks \<noteq> 0 \<Longrightarrow>
    \<exists>cs. \<forall>h. zero_CO2_CO3 h CO2 CO3 Ks = Some (poly_eval cs h)"
  by (rule polyfun_SomeI [where f = "\<lambda>h. CO2 * (h\<^sup>2 + K1 Ks * h + K1 Ks * K2 Ks) -
         CO3 * (h\<^sup>2 + h ^ 3 / K2 Ks + h ^ 4 / (K1 Ks * K2 Ks))"])
     (intro polyfun_intros, simp add: zero_CO2_CO3_def fdiv_def)

lemma zero_CO2_TA_poly:
  "\<exists>cs. \<forall>h. zero_CO2_TA h CO2 TA BT Ks = Some (poly_eval cs h)"
  by (rule polyfun_SomeI [where f = "\<lambda>h. TA * h\<^sup>2 * (KB Ks + h) -
         (CO2 * (KB Ks + h) * (K1 Ks * h + 2 * K1 Ks * K2 Ks) +
              h\<^sup>2 * KB Ks * BT + (KB Ks + h) * (KW Ks * h - h ^ 3))"])
     (intro polyfun_intros, simp add: zero_CO2_TA_def)

lemma zero_CO2_DIC_poly:
  "\<exists>cs. \<forall>h. zero_CO2_DIC h CO2 DIC Ks = Some (poly_eval cs h)"
  by (rule polyfun_SomeI [where f = "\<lambda>h. DIC * h\<^sup>2 - CO2 * (h\<^sup>2 + K1 Ks * h + K1 Ks * K2 Ks)"])
     (intro polyfun_intros, simp add: zero_CO2_DIC_def)

lemma zero_HCO3_CO3_poly:
  "K1 Ks \<noteq> 0 \<Longrightarrow> K2 Ks \<noteq> 0 \<Longrightarrow>
    \<exists>cs. \<forall>h. zero_HCO3_CO3 h HCO3 CO3 Ks = Some (poly_eval cs h)"
  by (rule polyfun_SomeI [where f = "\<lambda>h. HCO3 * (h + h\<^sup>2 / K1 Ks + K2 Ks) -
         CO3 * (h + h\<^sup>2 / K2 Ks + h ^ 3 / (K1 Ks * K2 Ks))"])
     (intro polyfun_intros, simp add: zero_HCO3_CO3_def fdiv_def)

lemma zero_HCO3_TA_poly:
  "K1 Ks \<noteq> 0 \<Longrightarrow> \<exists>cs. \<forall>h. zero_HCO3_TA h HCO3 TA BT Ks = Some (poly_eval cs h)"
  by (rule polyfun_SomeI [where f = "\<lambda>h. TA * (KB Ks + h) * (h ^ 3 + K1 Ks * h\<^sup>2 + K1 Ks * K2 Ks * h) -
           (HCO3 * (h + h\<^sup>2 / K1 Ks + K2 Ks) *
              ((KB Ks + 2 * K2 Ks) * K1 Ks * h + 2 * KB Ks * K1 Ks * K2 Ks + K1 Ks * h\<^sup>2) +
            (h\<^sup>2 + K1 Ks * h + K1 Ks * K2 Ks) *
              (KB Ks * BT * h + KW Ks * KB Ks + KW Ks * h - KB Ks * h\<^sup>2 - h ^ 3))"])
     (intro polyfun_intros, simp add: zero_HCO3_TA_def fdiv_def)

lemma zero_HCO3_DIC_poly:
  "K1 Ks \<noteq> 0 \<Longrightarrow> \<exists>cs. \<forall>h. zero_HCO3_DIC h HCO3 DIC Ks = Some (poly_eval cs h)"
  by (rule polyfun_SomeI [where f = "\<lambda>h. HCO3 * (h + h\<^sup>2 / K1 Ks + K2 Ks) - h * DIC"])
     (intro polyfun_intros, simp add: zero_HCO3_DIC_def fdiv_def)

lemma zero_CO3_TA_poly:
  "K1 Ks \<noteq> 0 \<Longrightarrow> K2 Ks \<noteq> 0 \<Longrightarrow>
    \<exists>cs. \<forall>h. zero_CO3_TA h CO3 TA BT Ks = Some (poly_eval cs h)"
  by (rule polyfun_SomeI [where f = "\<lambda>h. TA * (KB Ks + h) * (h ^ 3 + K1 Ks * h\<^sup>2 + K1 Ks * K2 Ks * h) -
           (CO3 * (h + h\<^sup>2 / K2 Ks + h ^ 3 / (K1 Ks * K2 Ks)) *
              (K1 Ks * h\<^sup>2 + K1 Ks * h * (KB Ks + 2 * K2 Ks) + 2 * KB Ks * K1 Ks * K2 Ks) +
            (h\<^sup>2 + K1 Ks * h + K1 Ks * K2 Ks) *
              (KB Ks * BT * h + KW Ks * KB Ks + KW Ks * h - KB Ks * h\<^sup>2 - h ^ 3))"])
     (intro polyfun_intros, simp add: zero_CO3_TA_def fdiv_def)

lemma zero_CO3_DIC_poly:
  "K1 Ks \<noteq> 0 \<Longrightarrow> K2 Ks \<noteq> 0 \<Longrightarrow>
    \<exists>cs. \<forall>h. zero_CO3_DIC h CO3 DIC Ks = Some (poly_eval cs h)"
  by (rule polyfun_SomeI [where f = "\<lambda>h. CO3 * (1 + h / K2 Ks + h\<^sup>2 / (K1 Ks * K2 Ks)) - DIC"])
     (intro polyfun_intros, simp add: zero_CO3_DIC_def fdiv_def)

lemma zero_TA_DIC_poly:
  "\<exists>cs. \<forall>h. zero_TA_DIC h TA DIC BT Ks = Some (poly_eval cs h)"
  by (rule polyfun_SomeI [where f = "\<lambda>h. DIC * (KB Ks + h) * (K1 Ks * h\<^sup>2 + 2 * K1 Ks * K2 Ks * h) -
       (TA * (KB Ks + h) * h - KB Ks * BT * h - KW Ks * (KB Ks + h) + (KB Ks + h) * h\<^sup>2) *
              (h\<^sup>2 + K1 Ks * h + K1 Ks * K2 Ks)"])
     (intro polyfun_intros, simp add: zero_TA_DIC_def)

text \<open>
  C10. With nonzero \<open>K1\<close> and \<open>K2\<close> each of the ten residuals returns a value for every real
  \<open>h\<close>, zero included, and that value is a polynomial in \<open>h\<close> whose coefficients do not depend
  on \<open>h\<close>: no residual divides by the unknown. In particular each one returns a value at
  the initial guesses 1 and 0.
\<close>

theorem residuals_total_polynomial:
  assumes "K1 Ks \<noteq> 0" "K2 Ks \<noteq> 0"
  shows "(\<exists>cs. \<forall>h. zero_CO2_HCO3 h CO2 HCO3 Ks = Some (poly_eval cs h)) \<and>
         (\<exists>cs. \<forall>h. zero_CO2_CO3 h CO2 CO3 Ks = Some (poly_eval cs h)) \<and>
         (\<exists>cs. \<forall>h. zero_CO2_TA h CO2 TA BT Ks = Some (poly_eval cs h)) \<and>
         (\<exists>cs. \<forall>h. zero_CO2_DIC h CO2 DIC Ks = Some (poly_eval cs h)) \<and>
         (\<exists>cs. \<forall>h. zero_HCO3_CO3 h HCO3 CO3 Ks = Some (poly_eval cs h)) \<and>
         (\<exists>cs. \<forall>h. zero_HCO3_TA h HCO3 TA BT Ks = Some (poly_eval cs h)) \<and>
         (\<exists>cs. \<forall>h. zero_HCO3_DIC h HCO3 DIC Ks = Some (poly_eval cs h)) \<and>
         (\<exists>cs. \<forall>h. zero_CO3_TA h CO3 TA BT Ks = Some (poly_eval cs h)) \<and>
         (\<exists>cs. \<forall>h. zero_CO3_DIC h CO3 DIC Ks = Some (poly_eval cs h)) \<and>
         (\<exists>cs. \<forall>h. zero_TA_DIC h TA DIC BT Ks = Some (poly_eval cs h))"
  by (intro conjI zero_CO2_HCO3_poly zero_CO2_CO3_poly zero_CO2_TA_poly zero_CO2_DIC_poly
      zero_HCO3_CO3_poly zero_HCO3_TA_poly zero_HCO3_DIC_poly zero_CO3_TA_poly
      zero_CO3_DIC_poly zero_TA_DIC_poly assms)

theorem residuals_total_polynomial_witness:
  "(\<exists>cs. \<forall>h. zero_CO2_HCO3 h 1 2 \<lparr>K1 = 1, K2 = 1, KB = 1, KW = 1\<rparr> = Some (poly_eval cs h)) \<and>
   (\<exists>cs. \<forall>h. zero_CO2_CO3 h 1 3 \<lparr>K1 = 1, K2 = 1, KB = 1, KW = 1\<rparr> = Some (poly_eval cs h)) \<and>
   (\<exists>cs. \<forall>h. zero_CO2_TA h 1 4 5 \<lparr>K1 = 1, K2 = 1, KB = 1, KW = 1\<rparr> = Some (poly_eval cs h)) \<and>
   (\<exists>cs. \<forall>h. zero_CO2_DIC h 1 6 \<lparr>K1 = 1, K2 = 1, KB = 1, KW = 1\<rparr> = Some (poly_eval cs h)) \<and>
   (\<exists>cs. \<forall>h. zero_HCO3_CO3 h 2 3 \<lparr>K1 = 1, K2 = 1, KB = 1, KW = 1\<rparr> = Some (poly_eval cs h)) \<and>
   (\<exists>cs. \<forall>h. zero_HCO3_TA h 2 4 5 \<lparr>K1 = 1, K2 = 1, KB = 1, KW = 1\<rparr> = Some (poly_eval cs h)) \<and>
   (\<exists>cs. \<forall>h. zero_HCO3_DIC h 2 6 \<lparr>K1 = 1, K2 = 1, KB = 1, KW = 1\<rparr> = Some (poly_eval cs h)) \<and>
   (\<exists>cs. \<forall>h. zero_CO3_TA h 3 4 5 \<lparr>K1 = 1, K2 = 1, KB = 1, KW = 1\<rparr> = Some (poly_eval cs h)) \<and>
   (\<exists>cs. \<forall>h. zero_CO3_DIC h 3 6 \<lparr>K1 = 1, K2 = 1, KB = 1, KW = 1\<rparr> = Some (poly_eval cs h)) \<and>
   (\<exists>cs. \<forall>h. zero_TA_DIC h 4 6 5 \<lparr>K1 = 1, K2 = 1, KB = 1, KW = 1\<rparr> = Some (poly_eval cs h))"
proof -
  have nz: "K1 \<lparr>K1 = 1, K2 = 1, KB = 1, KW = (1::real)\<rparr> \<noteq> 0"
           "K2 \<lparr>K1 = 1, K2 = 1, KB = 1, KW = (1::real)\<rparr> \<noteq> 0" by simp_all
  show ?thesis by (rule residuals_total_polynomial [OF nz])
qed

lemma lens2: "lens [a, b] = Some (max (np_size a) (np_size b))"
  by (simp add: max.commute)

lemma lens3: "lens [a, b, c] = Some (Max {np_size a, np_size b, np_size c})"
  by (simp add: max.commute max.left_commute)

text \<open>
  C5. Each of the ten implicit solvers returns what the root-finder returns on one call,
  and in that call the initial guess is an array of length \<open>L\<close>, the largest \<open>np.size\<close> of the
  species inputs (1 for a scalar), filled with 1, for \<open>HCO3_DIC\<close> filled with 0; the
  tolerance is \<open>1e-12\<close> in all ten.
\<close>

theorem implicit_solvers_initial_guess:
  "(\<exists>args. \<forall>fsolve :: residual2 \<Rightarrow> real list \<Rightarrow> args2 \<Rightarrow> real \<Rightarrow> 'r. CO2_HCO3 N fsolve CO2 HCO3 Ks =
      Some (fsolve zero_CO2_HCO3 (replicate (max (np_size CO2) (np_size HCO3)) 1) args (1 / 10 ^ 12))) \<and>
   (\<exists>args. \<forall>fsolve :: residual2 \<Rightarrow> real list \<Rightarrow> args2 \<Rightarrow> real \<Rightarrow> 'r. CO2_CO3 N fsolve CO2 CO3 Ks =
      Some (fsolve zero_CO2_CO3 (replicate (max (np_size CO2) (np_size CO3)) 1) args (1 / 10 ^ 12))) \<and>
   (\<exists>args. \<forall>fsolve :: residual3 \<Rightarrow> real list \<Rightarrow> args3 \<Rightarrow> real \<Rightarrow> 'r. CO2_TA N fsolve CO2 TA BT Ks =
      Some (fsolve zero_CO2_TA (replicate (Max {np_size CO2, np_size TA, np_size BT}) 1) args
              (1 / 10 ^ 12))) \<and>
   (\<exists>args. \<forall>fsolve :: residual2 \<Rightarrow> real list \<Rightarrow> args2 \<Rightarrow> real \<Rightarrow> 'r. CO2_DIC N fsolve CO2 DIC Ks =
      Some (fsolve zero_CO2_DIC (replicate (max (np_size CO2) (np_size DIC)) 1) args (1 / 10 ^ 12))) \<and>
   (\<exists>args. \<forall>fsolve :: residual2 \<Rightarrow> real list \<Rightarrow> args2 \<Rightarrow> real \<Rightarrow> 'r. HCO3_CO3 N fsolve HCO3 CO3 Ks =
      Some (fsolve zero_HCO3_CO3 (replicate (max (np_size HCO3) (np_size CO3)) 1) args (1 / 10 ^ 12))) \<and>
   (\<exists>args. \<forall>fsolve :: residual3 \<Rightarrow> real list \<Rightarrow> args3 \<Rightarrow> real \<Rightarrow> 'r. HCO3_TA N fsolve HCO3 TA BT Ks =
      Some (fsolve zero_HCO3_TA (replicate (Max {np_size HCO3, np_size TA, np_size BT}) 1) args
              (1 / 10 ^ 12))) \<and>
   (\<exists>args. \<forall>fsolve :: residual2 \<Rightarrow> real list \<Rightarrow> args2 \<Rightarrow> real \<Rightarrow> 'r. HCO3_DIC N fsolve HCO3 DIC Ks =
      Some (fsolve zero_HCO3_DIC (replicate (max (np_size HCO3) (np_size DIC)) 0) args (1 / 10 ^ 12))) \<and>
   (\<exists>args. \<forall>fsolve :: residual3 \<Rightarrow> real list \<Rightarrow> args3 \<Rightarrow> real \<Rightarrow> 'r. CO3_TA N fsolve CO3 TA BT Ks =
      Some (fsolve zero_CO3_TA (replicate (Max {np_size CO3, np_size TA, np_size BT}) 1) args
              (1 / 10 ^ 12))) \<and>
   (\<exists>args. \<forall>fsolve :: residual2 \<Rightarrow> real list \<Rightarrow> args2 \<Rightarrow> real \<Rightarrow> 'r. CO3_DIC N fsolve CO3 DIC Ks =
      Some (fsolve zero_CO3_DIC (replicate (max (np_size CO3) (np_size DIC)) 1) args (1 / 10 ^ 12))) \<and>
   (\<exists>args. \<forall>fsolve :: residual3 \<Rightarrow> real list \<Rightarrow> args3 \<Rightarrow> real \<Rightarrow> 'r. TA_DIC N fsolve TA DIC BT Ks =
      Some (fsolve zero_TA_DIC (replicate (Max {np_size TA, np_size DIC, np_size BT}) 1) args
              (1 / 10 ^ 12)))"
  unfolding CO2_HCO3_def CO2_CO3_def CO2_TA_def CO2_DIC_def HCO3_CO3_def HCO3_TA_def
    HCO3_DIC_def CO3_TA_def CO3_DIC_def TA_DIC_def lens2 lens3 noms_def
  by (intro conjI exI allI) simp_all

theorem implicit_solvers_initial_guess_witness:
  "CO2_HCO3 floats (\<lambda>f x0 a t. (x0, t)) (Array [1, 2, 3]) (Scalar 4) \<lparr>K1 = 1, K2 = 1, KB = 1, KW = 1\<rparr>
     = Some ([1, 1, 1], 1 / 10 ^ 12) \<and>
   HCO3_DIC floats (\<lambda>f x0 a t. (x0, t)) (Scalar 4) (Array [5, 6]) \<lparr>K1 = 1, K2 = 1, KB = 1, KW = 1\<rparr>
     = Some ([0, 0], 1 / 10 ^ 12) \<and>
   TA_DIC floats (\<lambda>f x0 a t. (x0, t)) (Scalar 7) (Array [5, 6]) (Scalar 8) \<lparr>K1 = 1, K2 = 1, KB = 1, KW = 1\<rparr>
     = Some ([1, 1], 1 / 10 ^ 12)"
proof -
  note t = implicit_solvers_initial_guess [where ?'r = "real list \<times> real" and N = floats
      and ?CO2.0 = "Array [1, 2, 3]" and ?HCO3.0 = "Scalar 4" and DIC = "Array [5, 6]"
      and ?CO3.0 = "Scalar 9" and TA = "Scalar 7" and BT = "Scalar 8"
      and Ks = "\<lparr>K1 = 1, K2 = 1, KB = 1, KW = 1\<rparr>"]
  from t obtain a1 where 1: "\<And>fsolve :: residual2 \<Rightarrow> real list \<Rightarrow> args2 \<Rightarrow> real \<Rightarrow> real list \<times> real.
      CO2_HCO3 floats fsolve (Array [1, 2, 3]) (Scalar 4) \<lparr>K1 = 1, K2 = 1, KB = 1, KW = 1\<rparr> =
      Some (fsolve zero_CO2_HCO3 (replicate (max (np_size (Array [1, 2, 3 :: real])) (np_size (Scalar (4 :: real)))) 1) a1 (1 / 10 ^ 12))"
    by blast
  from t obtain a2 where 2: "\<And>fsolve :: residual2 \<Rightarrow> real list \<Rightarrow> args2 \<Rightarrow> real \<Rightarrow> real list \<times> real.
      HCO3_DIC floats fsolve (Scalar 4) (Array [5, 6]) \<lparr>K1 = 1, K2 = 1, KB = 1, KW = 1\<rparr> =
      Some (fsolve zero_HCO3_DIC (replicate (max (np_size (Scalar (4 :: real))) (np_size (Array [5, 6 :: real]))) 0) a2 (1 / 10 ^ 12))"
    by blast
  from t obtain a3 where 3: "\<And>fsolve :: residual3 \<Rightarrow> real list \<Rightarrow> args3 \<Rightarrow> real \<Rightarrow> real list \<times> real.
      TA_DIC floats fsolve (Scalar 7) (Array [5, 6]) (Scalar 8) \<lparr>K1 = 1, K2 = 1, KB = 1, KW = 1\<rparr> =
      Some (fsolve zero_TA_DIC (replicate (Max {np_size (Scalar (7 :: real)), np_size (Array [5, 6 :: real]), np_size (Scalar (8 :: real))}) 1) a3 (1 / 10 ^ 12))"
    by blast
  show ?thesis by (simp add: 1 2 3 numeral_eq_Suc)
qed

text \<open>
  C6. \<open>CO3_DIC\<close> returns what the root-finder returns from the initial guess 1 (the same
  guess as the other solvers) on the residual \<open>CO3 * (1 + h/K2 + h^2/(K1*K2)) - DIC\<close>: whatever
  root that call reaches is the result, and no sign is selected afterwards. The residual
  vanishes exactly at the roots of \<open>CO3 * (1 + h/K2 + h^2/(K1*K2)) = DIC\<close>.
\<close>

theorem CO3_DIC_returns_solver_root:
  "(\<forall>fsolve :: residual2 \<Rightarrow> real list \<Rightarrow> args2 \<Rightarrow> real \<Rightarrow> 'r.
      CO3_DIC N fsolve CO3 DIC Ks =
        Some (fsolve zero_CO3_DIC (replicate (max (np_size CO3) (np_size DIC)) 1)
                (map_nd (nominal_value N) CO3, map_nd (nominal_value N) DIC, Ks) (1 / 10 ^ 12))) \<and>
   (K1 Ks \<noteq> 0 \<and> K2 Ks \<noteq> 0 \<longrightarrow>
      (zero_CO3_DIC h c d Ks = Some 0 \<longleftrightarrow>
         c * (1 + h / K2 Ks + h\<^sup>2 / (K1 Ks * K2 Ks)) = d))"
  proof (intro conjI allI impI)
  fix fsolve :: "residual2 \<Rightarrow> real list \<Rightarrow> args2 \<Rightarrow> real \<Rightarrow> 'r"
  show "CO3_DIC N fsolve CO3 DIC Ks =
        Some (fsolve zero_CO3_DIC (replicate (max (np_size CO3) (np_size DIC)) 1)
                (map_nd (nominal_value N) CO3, map_nd (nominal_value N) DIC, Ks) (1 / 10 ^ 12))"
    unfolding CO3_DIC_def lens2 noms_def by simp
next
  assume "K1 Ks \<noteq> 0 \<and> K2 Ks \<noteq> 0"
  then show "zero_CO3_DIC h c d Ks = Some 0 \<longleftrightarrow>
         c * (1 + h / K2 Ks + h\<^sup>2 / (K1 Ks * K2 Ks)) = d"
    by (simp add: zero_CO3_DIC_def fdiv_def)
qed

theorem CO3_DIC_returns_solver_root_witness:
  "CO3_DIC floats (\<lambda>f x0 a t. map (\<lambda>x. x + 1) x0) (Scalar 1) (Scalar 7)
      \<lparr>K1 = 1, K2 = 1, KB = 1, KW = 1\<rparr> = Some [2] \<and>
   zero_CO3_DIC 2 1 7 \<lparr>K1 = 1, K2 = 1, KB = 1, KW = 1\<rparr> = Some 0 \<and>
   zero_CO3_DIC (- 3) 1 7 \<lparr>K1 = 1, K2 = 1, KB = 1, KW = 1\<rparr> = Some 0"
proof -
  note t = CO3_DIC_returns_solver_root [where ?'r = "real list" and N = floats
      and ?CO3.0 = "Scalar 1" and DIC = "Scalar 7" and Ks = "\<lparr>K1 = 1, K2 = 1, KB = 1, KW = 1\<rparr>"
      and c = 1 and d = 7]
  have 1: "CO3_DIC floats (\<lambda>f x0 a t. map (\<lambda>x. x + 1) x0) (Scalar 1) (Scalar 7)
      \<lparr>K1 = 1, K2 = 1, KB = 1, KW = 1\<rparr> = Some [2]"
    using t [of 2] by simp
  have 2: "zero_CO3_DIC 2 1 7 \<lparr>K1 = 1, K2 = 1, KB = 1, KW = 1\<rparr> = Some 0"
    using t [of 2] by simp
  have 3: "zero_CO3_DIC (- 3) 1 7 \<lparr>K1 = 1, K2 = 1, KB = 1, KW = 1\<rparr> = Some 0"
    using t [of "- 3"] by simp
  show ?thesis using 1 2 3 by simp
qed






lemma u_at_deriv: "((\<lambda>e. u_at e u) has_real_derivative sens u) (at x)"
  unfolding u_at_def by (auto intro!: derivative_eq_intros)

lemma u_at_0: "u_at 0 u = nominal u" by (simp add: u_at_def)

lemma cCO2_ufloats:
  assumes "nominal H \<noteq> 0"
    "1 + nominal (K1 Ku) / nominal H + nominal (K1 Ku) * nominal (K2 Ku) / (nominal H)\<^sup>2 \<noteq> 0"
  shows "\<exists>r. cCO2 ufloats H DIC Ku = Some r \<and>
     nominal r = nominal DIC / (1 + nominal (K1 Ku) / nominal H + nominal (K1 Ku) * nominal (K2 Ku) / (nominal H)\<^sup>2) \<and>
     ((\<lambda>e. u_at e DIC / (1 + u_at e (K1 Ku) / u_at e H + u_at e (K1 Ku) * u_at e (K2 Ku) / (u_at e H)\<^sup>2))
       has_real_derivative sens r) (at 0)"
proof -
  have r: "cCO2 ufloats H DIC Ku = Some (the (cCO2 ufloats H DIC Ku))"
    using assms
    by (simp add: cCO2_def ufloats_def u_div_def ch_float_def)
  have n: "nominal (the (cCO2 ufloats H DIC Ku)) = nominal DIC / (1 + nominal (K1 Ku) / nominal H + nominal (K1 Ku) * nominal (K2 Ku) / (nominal H)\<^sup>2)"
    using assms
    by (simp add: cCO2_def ufloats_def u_div_def ch_float_def)
  have d: "((\<lambda>e. u_at e DIC / (1 + u_at e (K1 Ku) / u_at e H + u_at e (K1 Ku) * u_at e (K2 Ku) / (u_at e H)\<^sup>2))
       has_real_derivative sens (the (cCO2 ufloats H DIC Ku))) (at 0)"
    using assms
    by (auto intro!: derivative_eq_intros u_at_deriv
        simp add: u_at_0 cCO2_def ufloats_def u_div_def ch_float_def power2_eq_square)
  show ?thesis using r n d by blast
qed

lemma cHCO3_ufloats:
  assumes "nominal (K1 Ku) \<noteq> 0"
    "nominal H \<noteq> 0"
    "1 + nominal H / nominal (K1 Ku) + nominal (K2 Ku) / nominal H \<noteq> 0"
  shows "\<exists>r. cHCO3 ufloats H DIC Ku = Some r \<and>
     nominal r = nominal DIC / (1 + nominal H / nominal (K1 Ku) + nominal (K2 Ku) / nominal H) \<and>
     ((\<lambda>e. u_at e DIC / (1 + u_at e H / u_at e (K1 Ku) + u_at e (K2 Ku) / u_at e H))
       has_real_derivative sens r) (at 0)"
proof -
  have r: "cHCO3 ufloats H DIC Ku = Some (the (cHCO3 ufloats H DIC Ku))"
    using assms
    by (simp add: cHCO3_def ufloats_def u_div_def ch_float_def)
  have n: "nominal (the (cHCO3 ufloats H DIC Ku)) = nominal DIC / (1 + nominal H / nominal (K1 Ku) + nominal (K2 Ku) / nominal H)"
    using assms
    by (simp add: cHCO3_def ufloats_def u_div_def ch_float_def)
  have d: "((\<lambda>e. u_at e DIC / (1 + u_at e H / u_at e (K1 Ku) + u_at e (K2 Ku) / u_at e H))
       has_real_derivative sens (the (cHCO3 ufloats H DIC Ku))) (at 0)"
    using assms
    by (auto intro!: derivative_eq_intros u_at_deriv
        simp add: u_at_0 cHCO3_def ufloats_def u_div_def ch_float_def power2_eq_square)
  show ?thesis using r n d by blast
qed

lemma cCO3_ufloats:
  assumes "nominal (K1 Ku) \<noteq> 0"
    "nominal (K2 Ku) \<noteq> 0"
    "1 + nominal H / nominal (K2 Ku) + (nominal H)\<^sup>2 / (nominal (K1 Ku) * nominal (K2 Ku)) \<noteq> 0"
  shows "\<exists>r. cCO3 ufloats H DIC Ku = Some r \<and>
     nominal r = nominal DIC / (1 + nominal H / nominal (K2 Ku) + (nominal H)\<^sup>2 / (nominal (K1 Ku) * nominal (K2 Ku))) \<and>
     ((\<lambda>e. u_at e DIC / (1 + u_at e H / u_at e (K2 Ku) + (u_at e H)\<^sup>2 / (u_at e (K1 Ku) * u_at e (K2 Ku))))
       has_real_derivative sens r) (at 0)"
proof -
  have r: "cCO3 ufloats H DIC Ku = Some (the (cCO3 ufloats H DIC Ku))"
    using assms
    by (simp add: cCO3_def ufloats_def u_div_def ch_float_def)
  have n: "nominal (the (cCO3 ufloats H DIC Ku)) = nominal DIC / (1 + nominal H / nominal (K2 Ku) + (nominal H)\<^sup>2 / (nominal (K1 Ku) * nominal (K2 Ku)))"
    using assms
    by (simp add: cCO3_def ufloats_def u_div_def ch_float_def)
  have d: "((\<lambda>e. u_at e DIC / (1 + u_at e H / u_at e (K2 Ku) + (u_at e H)\<^sup>2 / (u_at e (K1 Ku) * u_at e (K2 Ku))))
       has_real_derivative sens (the (cCO3 ufloats H DIC Ku))) (at 0)"
    using assms
    by (auto intro!: derivative_eq_intros u_at_deriv
        simp add: u_at_0 cCO3_def ufloats_def u_div_def ch_float_def power2_eq_square)
  show ?thesis using r n d by blast
qed

lemma cTA_ufloats:
  assumes "nominal H \<noteq> 0"
    "nominal (KB Ku) + nominal H \<noteq> 0"
  shows "\<exists>r. cTA ufloats CO2 H BT Ku = Some r \<and>
     nominal r = nominal CO2 * (nominal (K1 Ku) / nominal H + 2 * nominal (K1 Ku) * nominal (K2 Ku) / (nominal H)\<^sup>2) + nominal BT * nominal (KB Ku) / (nominal (KB Ku) + nominal H) + nominal (KW Ku) / nominal H - nominal H \<and>
     ((\<lambda>e. u_at e CO2 * (u_at e (K1 Ku) / u_at e H + 2 * u_at e (K1 Ku) * u_at e (K2 Ku) / (u_at e H)\<^sup>2) + u_at e BT * u_at e (KB Ku) / (u_at e (KB Ku) + u_at e H) + u_at e (KW Ku) / u_at e H - u_at e H)
       has_real_derivative sens r) (at 0)"
proof -
  have r: "cTA ufloats CO2 H BT Ku = Some (the (cTA ufloats CO2 H BT Ku))"
    using assms
    by (simp add: cTA_def ufloats_def u_div_def ch_float_def)
  have n: "nominal (the (cTA ufloats CO2 H BT Ku)) = nominal CO2 * (nominal (K1 Ku) / nominal H + 2 * nominal (K1 Ku) * nominal (K2 Ku) / (nominal H)\<^sup>2) + nominal BT * nominal (KB Ku) / (nominal (KB Ku) + nominal H) + nominal (KW Ku) / nominal H - nominal H"
    using assms
    by (simp add: cTA_def ufloats_def u_div_def ch_float_def)
  have d: "((\<lambda>e. u_at e CO2 * (u_at e (K1 Ku) / u_at e H + 2 * u_at e (K1 Ku) * u_at e (K2 Ku) / (u_at e H)\<^sup>2) + u_at e BT * u_at e (KB Ku) / (u_at e (KB Ku) + u_at e H) + u_at e (KW Ku) / u_at e H - u_at e H)
       has_real_derivative sens (the (cTA ufloats CO2 H BT Ku))) (at 0)"
    using assms
    by (auto intro!: derivative_eq_intros u_at_deriv
        simp add: u_at_0 cTA_def ufloats_def u_div_def ch_float_def power2_eq_square mult_ac add_ac)
  show ?thesis using r n d by blast
qed

lemma CO2_pH_ufloats:
  shows "\<exists>r. CO2_pH ufloats CO2 pH Ku = Some r \<and>
     nominal r = nominal CO2 * (1 + nominal (K1 Ku) / (10 powr (- nominal pH)) + nominal (K1 Ku) * nominal (K2 Ku) / (10 powr (- nominal pH))\<^sup>2) \<and>
     ((\<lambda>e. u_at e CO2 * (1 + u_at e (K1 Ku) / (10 powr (- u_at e pH)) + u_at e (K1 Ku) * u_at e (K2 Ku) / (10 powr (- u_at e pH))\<^sup>2))
       has_real_derivative sens r) (at 0)"
proof -
  have r: "CO2_pH ufloats CO2 pH Ku = Some (the (CO2_pH ufloats CO2 pH Ku))"
    by (simp add: CO2_pH_def ufloats_def u_div_def ch_float_def)
  have n: "nominal (the (CO2_pH ufloats CO2 pH Ku)) = nominal CO2 * (1 + nominal (K1 Ku) / (10 powr (- nominal pH)) + nominal (K1 Ku) * nominal (K2 Ku) / (10 powr (- nominal pH))\<^sup>2)"
    by (simp add: CO2_pH_def ufloats_def u_div_def ch_float_def)
  have d: "((\<lambda>e. u_at e CO2 * (1 + u_at e (K1 Ku) / (10 powr (- u_at e pH)) + u_at e (K1 Ku) * u_at e (K2 Ku) / (10 powr (- u_at e pH))\<^sup>2))
       has_real_derivative sens (the (CO2_pH ufloats CO2 pH Ku))) (at 0)"
    by (auto intro!: derivative_eq_intros u_at_deriv
        simp add: u_at_0 CO2_pH_def ufloats_def u_div_def ch_float_def power2_eq_square mult_ac)
  show ?thesis using r n d by blast
qed

lemma pH_HCO3_ufloats:
  assumes "nominal (K1 Ku) \<noteq> 0"
  shows "\<exists>r. pH_HCO3 ufloats pH HCO3 Ku = Some r \<and>
     nominal r = nominal HCO3 * (1 + (10 powr (- nominal pH)) / nominal (K1 Ku) + nominal (K2 Ku) / (10 powr (- nominal pH))) \<and>
     ((\<lambda>e. u_at e HCO3 * (1 + (10 powr (- u_at e pH)) / u_at e (K1 Ku) + u_at e (K2 Ku) / (10 powr (- u_at e pH))))
       has_real_derivative sens r) (at 0)"
proof -
  have r: "pH_HCO3 ufloats pH HCO3 Ku = Some (the (pH_HCO3 ufloats pH HCO3 Ku))"
    using assms
    by (simp add: pH_HCO3_def ufloats_def u_div_def ch_float_def)
  have n: "nominal (the (pH_HCO3 ufloats pH HCO3 Ku)) = nominal HCO3 * (1 + (10 powr (- nominal pH)) / nominal (K1 Ku) + nominal (K2 Ku) / (10 powr (- nominal pH)))"
    using assms
    by (simp add: pH_HCO3_def ufloats_def u_div_def ch_float_def)
  have d: "((\<lambda>e. u_at e HCO3 * (1 + (10 powr (- u_at e pH)) / u_at e (K1 Ku) + u_at e (K2 Ku) / (10 powr (- u_at e pH))))
       has_real_derivative sens (the (pH_HCO3 ufloats pH HCO3 Ku))) (at 0)"
    using assms
    by (auto intro!: derivative_eq_intros u_at_deriv
        simp add: u_at_0 pH_HCO3_def ufloats_def u_div_def ch_float_def power2_eq_square mult_ac)
  show ?thesis using r n d by blast
qed

lemma pH_CO3_ufloats:
  assumes "nominal (K1 Ku) \<noteq> 0"
    "nominal (K2 Ku) \<noteq> 0"
  shows "\<exists>r. pH_CO3 ufloats pH CO3 Ku = Some r \<and>
     nominal r = nominal CO3 * (1 + (10 powr (- nominal pH)) / nominal (K2 Ku) + (10 powr (- nominal pH))\<^sup>2 / (nominal (K1 Ku) * nominal (K2 Ku))) \<and>
     ((\<lambda>e. u_at e CO3 * (1 + (10 powr (- u_at e pH)) / u_at e (K2 Ku) + (10 powr (- u_at e pH))\<^sup>2 / (u_at e (K1 Ku) * u_at e (K2 Ku))))
       has_real_derivative sens r) (at 0)"
proof -
  have r: "pH_CO3 ufloats pH CO3 Ku = Some (the (pH_CO3 ufloats pH CO3 Ku))"
    using assms
    by (simp add: pH_CO3_def ufloats_def u_div_def ch_float_def)
  have n: "nominal (the (pH_CO3 ufloats pH CO3 Ku)) = nominal CO3 * (1 + (10 powr (- nominal pH)) / nominal (K2 Ku) + (10 powr (- nominal pH))\<^sup>2 / (nominal (K1 Ku) * nominal (K2 Ku)))"
    using assms
    by (simp add: pH_CO3_def ufloats_def u_div_def ch_float_def)
  have d: "((\<lambda>e. u_at e CO3 * (1 + (10 powr (- u_at e pH)) / u_at e (K2 Ku) + (10 powr (- u_at e pH))\<^sup>2 / (u_at e (K1 Ku) * u_at e (K2 Ku))))
       has_real_derivative sens (the (pH_CO3 ufloats pH CO3 Ku))) (at 0)"
    using assms
    by (auto intro!: derivative_eq_intros u_at_deriv
        simp add: u_at_0 pH_CO3_def ufloats_def u_div_def ch_float_def power2_eq_square mult_ac)
  show ?thesis using r n d by blast
qed

lemma pH_TA_ufloats:
  assumes "nominal (KB Ku) + (10 powr (- nominal pH)) \<noteq> 0"
    "nominal (K1 Ku) / (10 powr (- nominal pH)) + 2 * nominal (K1 Ku) * nominal (K2 Ku) / (10 powr (- nominal pH))\<^sup>2 \<noteq> 0"
  shows "\<exists>r. pH_TA ufloats pH TA BT Ku = Some r \<and>
     nominal r = (nominal TA - nominal (KB Ku) * nominal BT / (nominal (KB Ku) + (10 powr (- nominal pH))) - nominal (KW Ku) / (10 powr (- nominal pH)) + (10 powr (- nominal pH))) / (nominal (K1 Ku) / (10 powr (- nominal pH)) + 2 * nominal (K1 Ku) * nominal (K2 Ku) / (10 powr (- nominal pH))\<^sup>2) \<and>
     ((\<lambda>e. (u_at e TA - u_at e (KB Ku) * u_at e BT / (u_at e (KB Ku) + (10 powr (- u_at e pH))) - u_at e (KW Ku) / (10 powr (- u_at e pH)) + (10 powr (- u_at e pH))) / (u_at e (K1 Ku) / (10 powr (- u_at e pH)) + 2 * u_at e (K1 Ku) * u_at e (K2 Ku) / (10 powr (- u_at e pH))\<^sup>2))
       has_real_derivative sens r) (at 0)"
proof -
  have r: "pH_TA ufloats pH TA BT Ku = Some (the (pH_TA ufloats pH TA BT Ku))"
    using assms
    by (simp add: pH_TA_def ufloats_def u_div_def ch_float_def)
  have n: "nominal (the (pH_TA ufloats pH TA BT Ku)) = (nominal TA - nominal (KB Ku) * nominal BT / (nominal (KB Ku) + (10 powr (- nominal pH))) - nominal (KW Ku) / (10 powr (- nominal pH)) + (10 powr (- nominal pH))) / (nominal (K1 Ku) / (10 powr (- nominal pH)) + 2 * nominal (K1 Ku) * nominal (K2 Ku) / (10 powr (- nominal pH))\<^sup>2)"
    using assms
    by (simp add: pH_TA_def ufloats_def u_div_def ch_float_def)
  have d: "((\<lambda>e. (u_at e TA - u_at e (KB Ku) * u_at e BT / (u_at e (KB Ku) + (10 powr (- u_at e pH))) - u_at e (KW Ku) / (10 powr (- u_at e pH)) + (10 powr (- u_at e pH))) / (u_at e (K1 Ku) / (10 powr (- u_at e pH)) + 2 * u_at e (K1 Ku) * u_at e (K2 Ku) / (10 powr (- u_at e pH))\<^sup>2))
       has_real_derivative sens (the (pH_TA ufloats pH TA BT Ku))) (at 0)"
    using assms
    by (auto intro!: derivative_eq_intros u_at_deriv
        simp add: u_at_0 pH_TA_def ufloats_def u_div_def ch_float_def power2_eq_square mult_ac)
  show ?thesis using r n d by blast
qed

lemma pH_DIC_ufloats:
  assumes "1 + nominal (K1 Ku) / (10 powr (- nominal pH)) + nominal (K1 Ku) * nominal (K2 Ku) / (10 powr (- nominal pH))\<^sup>2 \<noteq> 0"
  shows "\<exists>r. pH_DIC ufloats pH DIC Ku = Some r \<and>
     nominal r = nominal DIC / (1 + nominal (K1 Ku) / (10 powr (- nominal pH)) + nominal (K1 Ku) * nominal (K2 Ku) / (10 powr (- nominal pH))\<^sup>2) \<and>
     ((\<lambda>e. u_at e DIC / (1 + u_at e (K1 Ku) / (10 powr (- u_at e pH)) + u_at e (K1 Ku) * u_at e (K2 Ku) / (10 powr (- u_at e pH))\<^sup>2))
       has_real_derivative sens r) (at 0)"
proof -
  have r: "pH_DIC ufloats pH DIC Ku = Some (the (pH_DIC ufloats pH DIC Ku))"
    using assms
    by (simp add: pH_DIC_def ufloats_def u_div_def ch_float_def)
  have n: "nominal (the (pH_DIC ufloats pH DIC Ku)) = nominal DIC / (1 + nominal (K1 Ku) / (10 powr (- nominal pH)) + nominal (K1 Ku) * nominal (K2 Ku) / (10 powr (- nominal pH))\<^sup>2)"
    using assms
    by (simp add: pH_DIC_def ufloats_def u_div_def ch_float_def)
  have d: "((\<lambda>e. u_at e DIC / (1 + u_at e (K1 Ku) / (10 powr (- u_at e pH)) + u_at e (K1 Ku) * u_at e (K2 Ku) / (10 powr (- u_at e pH))\<^sup>2))
       has_real_derivative sens (the (pH_DIC ufloats pH DIC Ku))) (at 0)"
    using assms
    by (auto intro!: derivative_eq_intros u_at_deriv
        simp add: u_at_0 pH_DIC_def ufloats_def u_div_def ch_float_def power2_eq_square mult_ac)
  show ?thesis using r n d by blast
qed

text \<open>
  C7. Every implicit solver hands the root-finder the nominal values of all its species
  inputs (\<open>noms\<close>, shapes kept), whatever uncertainty they carried. No direct-formula solver
  and no converter takes a nominal value: its result is the same whatever the extraction
  of the nominal value is. On numbers with an uncertainty each of these nine returns its
  closed-form expression with the uncertainty of every input propagated: the nominal
  value of the result is the expression at the nominal values, and its \<open>sens\<close> is the
  derivative of the expression along the uncertainties of all inputs (first-order
  propagation), wherever no divisor has nominal value zero.
\<close>

theorem noms_only_before_root_finding:
  fixes N :: "'a numeric" and Ks :: "real Ks" and Ku :: "'a Ks" and uKs :: "ufloat Ks"
  shows
  "(\<exists>x0 xtol. \<forall>fsolve :: residual2 \<Rightarrow> real list \<Rightarrow> args2 \<Rightarrow> real \<Rightarrow> 'r. CO2_HCO3 N fsolve CO2 HCO3 Ks =
      Some (fsolve zero_CO2_HCO3 x0
              (map_nd (nominal_value N) CO2, map_nd (nominal_value N) HCO3, Ks) xtol)) \<and>
   (\<exists>x0 xtol. \<forall>fsolve :: residual2 \<Rightarrow> real list \<Rightarrow> args2 \<Rightarrow> real \<Rightarrow> 'r. CO2_CO3 N fsolve CO2 CO3 Ks =
      Some (fsolve zero_CO2_CO3 x0
              (map_nd (nominal_value N) CO2, map_nd (nominal_value N) CO3, Ks) xtol)) \<and>
   (\<exists>x0 xtol. \<forall>fsolve :: residual3 \<Rightarrow> real list \<Rightarrow> args3 \<Rightarrow> real \<Rightarrow> 'r. CO2_TA N fsolve CO2 TA BT Ks =
      Some (fsolve zero_CO2_TA x0
              (map_nd (nominal_value N) CO2, map_nd (nominal_value N) TA,
               map_nd (nominal_value N) BT, Ks) xtol)) \<and>
   (\<exists>x0 xtol. \<forall>fsolve :: residual2 \<Rightarrow> real list \<Rightarrow> args2 \<Rightarrow> real \<Rightarrow> 'r. CO2_DIC N fsolve CO2 DIC Ks =
      Some (fsolve zero_CO2_DIC x0
              (map_nd (nominal_value N) CO2, map_nd (nominal_value N) DIC, Ks) xtol)) \<and>
   (\<exists>x0 xtol. \<forall>fsolve :: residual2 \<Rightarrow> real list \<Rightarrow> args2 \<Rightarrow> real \<Rightarrow> 'r. HCO3_CO3 N fsolve HCO3 CO3 Ks =
      Some (fsolve zero_HCO3_CO3 x0
              (map_nd (nominal_value N) HCO3, map_nd (nominal_value N) CO3, Ks) xtol)) \<and>
   (\<exists>x0 xtol. \<forall>fsolve :: residual3 \<Rightarrow> real list \<Rightarrow> args3 \<Rightarrow> real \<Rightarrow> 'r. HCO3_TA N fsolve HCO3 TA BT Ks =
      Some (fsolve zero_HCO3_TA x0
              (map_nd (nominal_value N) HCO3, map_nd (nominal_value N) TA,
               map_nd (nominal_value N) BT, Ks) xtol)) \<and>
   (\<exists>x0 xtol. \<forall>fsolve :: residual2 \<Rightarrow> real list \<Rightarrow> args2 \<Rightarrow> real \<Rightarrow> 'r. HCO3_DIC N fsolve HCO3 DIC Ks =
      Some (fsolve zero_HCO3_DIC x0
              (map_nd (nominal_value N) HCO3, map_nd (nominal_value N) DIC, Ks) xtol)) \<and>
   (\<exists>x0 xtol. \<forall>fsolve :: residual3 \<Rightarrow> real list \<Rightarrow> args3 \<Rightarrow> real \<Rightarrow> 'r. CO3_TA N fsolve CO3 TA BT Ks =
      Some (fsolve zero_CO3_TA x0
              (map_nd (nominal_value N) CO3, map_nd (nominal_value N) TA,
               map_nd (nominal_value N) BT, Ks) xtol)) \<and>
   (\<exists>x0 xtol. \<forall>fsolve :: residual2 \<Rightarrow> real list \<Rightarrow> args2 \<Rightarrow> real \<Rightarrow> 'r. CO3_DIC N fsolve CO3 DIC Ks =
      Some (fsolve zero_CO3_DIC x0
              (map_nd (nominal_value N) CO3, map_nd (nominal_value N) DIC, Ks) xtol)) \<and>
   (\<exists>x0 xtol. \<forall>fsolve :: residual3 \<Rightarrow> real list \<Rightarrow> args3 \<Rightarrow> real \<Rightarrow> 'r. TA_DIC N fsolve TA DIC BT Ks =
      Some (fsolve zero_TA_DIC x0
              (map_nd (nominal_value N) TA, map_nd (nominal_value N) DIC,
               map_nd (nominal_value N) BT, Ks) xtol)) \<and>
   CO2_pH (N\<lparr>nominal_value := g\<rparr>) x pH Ku = CO2_pH N x pH Ku \<and>
   pH_HCO3 (N\<lparr>nominal_value := g\<rparr>) pH x Ku = pH_HCO3 N pH x Ku \<and>
   pH_CO3 (N\<lparr>nominal_value := g\<rparr>) pH x Ku = pH_CO3 N pH x Ku \<and>
   pH_TA (N\<lparr>nominal_value := g\<rparr>) pH x y Ku = pH_TA N pH x y Ku \<and>
   pH_DIC (N\<lparr>nominal_value := g\<rparr>) pH x Ku = pH_DIC N pH x Ku \<and>
   cCO2 (N\<lparr>nominal_value := g\<rparr>) H x Ku = cCO2 N H x Ku \<and>
   cHCO3 (N\<lparr>nominal_value := g\<rparr>) H x Ku = cHCO3 N H x Ku \<and>
   cCO3 (N\<lparr>nominal_value := g\<rparr>) H x Ku = cCO3 N H x Ku \<and>
   cTA (N\<lparr>nominal_value := g\<rparr>) x H y Ku = cTA N x H y Ku \<and>
   (\<exists>r. CO2_pH ufloats uCO2 upH uKs = Some r \<and>
     nominal r = nominal uCO2 * (1 + nominal (K1 uKs) / (10 powr (- nominal upH)) + nominal (K1 uKs) * nominal (K2 uKs) / (10 powr (- nominal upH))\<^sup>2) \<and>
     ((\<lambda>e. u_at e uCO2 * (1 + u_at e (K1 uKs) / (10 powr (- u_at e upH)) + u_at e (K1 uKs) * u_at e (K2 uKs) / (10 powr (- u_at e upH))\<^sup>2))
       has_real_derivative sens r) (at 0)) \<and>
   (nominal (K1 uKs) \<noteq> 0 \<longrightarrow>
      (\<exists>r. pH_HCO3 ufloats upH uHCO3 uKs = Some r \<and>
     nominal r = nominal uHCO3 * (1 + (10 powr (- nominal upH)) / nominal (K1 uKs) + nominal (K2 uKs) / (10 powr (- nominal upH))) \<and>
     ((\<lambda>e. u_at e uHCO3 * (1 + (10 powr (- u_at e upH)) / u_at e (K1 uKs) + u_at e (K2 uKs) / (10 powr (- u_at e upH))))
       has_real_derivative sens r) (at 0))) \<and>
   (nominal (K1 uKs) \<noteq> 0 \<and> nominal (K2 uKs) \<noteq> 0 \<longrightarrow>
      (\<exists>r. pH_CO3 ufloats upH uCO3 uKs = Some r \<and>
     nominal r = nominal uCO3 * (1 + (10 powr (- nominal upH)) / nominal (K2 uKs) + (10 powr (- nominal upH))\<^sup>2 / (nominal (K1 uKs) * nominal (K2 uKs))) \<and>
     ((\<lambda>e. u_at e uCO3 * (1 + (10 powr (- u_at e upH)) / u_at e (K2 uKs) + (10 powr (- u_at e upH))\<^sup>2 / (u_at e (K1 uKs) * u_at e (K2 uKs))))
       has_real_derivative sens r) (at 0))) \<and>
   (nominal (KB uKs) + (10 powr (- nominal upH)) \<noteq> 0 \<and> nominal (K1 uKs) / (10 powr (- nominal upH)) + 2 * nominal (K1 uKs) * nominal (K2 uKs) / (10 powr (- nominal upH))\<^sup>2 \<noteq> 0 \<longrightarrow>
      (\<exists>r. pH_TA ufloats upH uTA uBT uKs = Some r \<and>
     nominal r = (nominal uTA - nominal (KB uKs) * nominal uBT / (nominal (KB uKs) + (10 powr (- nominal upH))) - nominal (KW uKs) / (10 powr (- nominal upH)) + (10 powr (- nominal upH))) / (nominal (K1 uKs) / (10 powr (- nominal upH)) + 2 * nominal (K1 uKs) * nominal (K2 uKs) / (10 powr (- nominal upH))\<^sup>2) \<and>
     ((\<lambda>e. (u_at e uTA - u_at e (KB uKs) * u_at e uBT / (u_at e (KB uKs) + (10 powr (- u_at e upH))) - u_at e (KW uKs) / (10 powr (- u_at e upH)) + (10 powr (- u_at e upH))) / (u_at e (K1 uKs) / (10 powr (- u_at e upH)) + 2 * u_at e (K1 uKs) * u_at e (K2 uKs) / (10 powr (- u_at e upH))\<^sup>2))
       has_real_derivative sens r) (at 0))) \<and>
   (1 + nominal (K1 uKs) / (10 powr (- nominal upH)) + nominal (K1 uKs) * nominal (K2 uKs) / (10 powr (- nominal upH))\<^sup>2 \<noteq> 0 \<longrightarrow>
      (\<exists>r. pH_DIC ufloats upH uDIC uKs = Some r \<and>
     nominal r = nominal uDIC / (1 + nominal (K1 uKs) / (10 powr (- nominal upH)) + nominal (K1 uKs) * nominal (K2 uKs) / (10 powr (- nominal upH))\<^sup>2) \<and>
     ((\<lambda>e. u_at e uDIC / (1 + u_at e (K1 uKs) / (10 powr (- u_at e upH)) + u_at e (K1 uKs) * u_at e (K2 uKs) / (10 powr (- u_at e upH))\<^sup>2))
       has_real_derivative sens r) (at 0))) \<and>
   (nominal uH \<noteq> 0 \<and> 1 + nominal (K1 uKs) / nominal uH + nominal (K1 uKs) * nominal (K2 uKs) / (nominal uH)\<^sup>2 \<noteq> 0 \<longrightarrow>
      (\<exists>r. cCO2 ufloats uH uDIC uKs = Some r \<and>
     nominal r = nominal uDIC / (1 + nominal (K1 uKs) / nominal uH + nominal (K1 uKs) * nominal (K2 uKs) / (nominal uH)\<^sup>2) \<and>
     ((\<lambda>e. u_at e uDIC / (1 + u_at e (K1 uKs) / u_at e uH + u_at e (K1 uKs) * u_at e (K2 uKs) / (u_at e uH)\<^sup>2))
       has_real_derivative sens r) (at 0))) \<and>
   (nominal (K1 uKs) \<noteq> 0 \<and> nominal uH \<noteq> 0 \<and> 1 + nominal uH / nominal (K1 uKs) + nominal (K2 uKs) / nominal uH \<noteq> 0 \<longrightarrow>
      (\<exists>r. cHCO3 ufloats uH uDIC uKs = Some r \<and>
     nominal r = nominal uDIC / (1 + nominal uH / nominal (K1 uKs) + nominal (K2 uKs) / nominal uH) \<and>
     ((\<lambda>e. u_at e uDIC / (1 + u_at e uH / u_at e (K1 uKs) + u_at e (K2 uKs) / u_at e uH))
       has_real_derivative sens r) (at 0))) \<and>
   (nominal (K1 uKs) \<noteq> 0 \<and> nominal (K2 uKs) \<noteq> 0 \<and> 1 + nominal uH / nominal (K2 uKs) + (nominal uH)\<^sup>2 / (nominal (K1 uKs) * nominal (K2 uKs)) \<noteq> 0 \<longrightarrow>
      (\<exists>r. cCO3 ufloats uH uDIC uKs = Some r \<and>
     nominal r = nominal uDIC / (1 + nominal uH / nominal (K2 uKs) + (nominal uH)\<^sup>2 / (nominal (K1 uKs) * nominal (K2 uKs))) \<and>
     ((\<lambda>e. u_at e uDIC / (1 + u_at e uH / u_at e (K2 uKs) + (u_at e uH)\<^sup>2 / (u_at e (K1 uKs) * u_at e (K2 uKs))))
       has_real_derivative sens r) (at 0))) \<and>
   (nominal uH \<noteq> 0 \<and> nominal (KB uKs) + nominal uH \<noteq> 0 \<longrightarrow>
      (\<exists>r. cTA ufloats uCO2 uH uBT uKs = Some r \<and>
     nominal r = nominal uCO2 * (nominal (K1 uKs) / nominal uH + 2 * nominal (K1 uKs) * nominal (K2 uKs) / (nominal uH)\<^sup>2) + nominal uBT * nominal (KB uKs) / (nominal (KB uKs) + nominal uH) + nominal (KW uKs) / nominal uH - nominal uH \<and>
     ((\<lambda>e. u_at e uCO2 * (u_at e (K1 uKs) / u_at e uH + 2 * u_at e (K1 uKs) * u_at e (K2 uKs) / (u_at e uH)\<^sup>2) + u_at e uBT * u_at e (KB uKs) / (u_at e (KB uKs) + u_at e uH) + u_at e (KW uKs) / u_at e uH - u_at e uH)
       has_real_derivative sens r) (at 0)))"
proof -
  have direct:
    "CO2_pH (N\<lparr>nominal_value := g\<rparr>) x pH Ku = CO2_pH N x pH Ku"
    "pH_HCO3 (N\<lparr>nominal_value := g\<rparr>) pH x Ku = pH_HCO3 N pH x Ku"
    "pH_CO3 (N\<lparr>nominal_value := g\<rparr>) pH x Ku = pH_CO3 N pH x Ku"
    "pH_TA (N\<lparr>nominal_value := g\<rparr>) pH x y Ku = pH_TA N pH x y Ku"
    "pH_DIC (N\<lparr>nominal_value := g\<rparr>) pH x Ku = pH_DIC N pH x Ku"
    "cCO2 (N\<lparr>nominal_value := g\<rparr>) H x Ku = cCO2 N H x Ku"
    "cHCO3 (N\<lparr>nominal_value := g\<rparr>) H x Ku = cHCO3 N H x Ku"
    "cCO3 (N\<lparr>nominal_value := g\<rparr>) H x Ku = cCO3 N H x Ku"
    "cTA (N\<lparr>nominal_value := g\<rparr>) x H y Ku = cTA N x H y Ku"
    by (simp_all add: CO2_pH_def pH_HCO3_def pH_CO3_def pH_TA_def pH_DIC_def
        cCO2_def cHCO3_def cCO3_def cTA_def)
  have implicit:
    "\<exists>x0 xtol. \<forall>fsolve :: residual2 \<Rightarrow> real list \<Rightarrow> args2 \<Rightarrow> real \<Rightarrow> 'r. CO2_HCO3 N fsolve CO2 HCO3 Ks =
      Some (fsolve zero_CO2_HCO3 x0
              (map_nd (nominal_value N) CO2, map_nd (nominal_value N) HCO3, Ks) xtol)"
    "\<exists>x0 xtol. \<forall>fsolve :: residual2 \<Rightarrow> real list \<Rightarrow> args2 \<Rightarrow> real \<Rightarrow> 'r. CO2_CO3 N fsolve CO2 CO3 Ks =
      Some (fsolve zero_CO2_CO3 x0
              (map_nd (nominal_value N) CO2, map_nd (nominal_value N) CO3, Ks) xtol)"
    "\<exists>x0 xtol. \<forall>fsolve :: residual3 \<Rightarrow> real list \<Rightarrow> args3 \<Rightarrow> real \<Rightarrow> 'r. CO2_TA N fsolve CO2 TA BT Ks =
      Some (fsolve zero_CO2_TA x0
              (map_nd (nominal_value N) CO2, map_nd (nominal_value N) TA,
               map_nd (nominal_value N) BT, Ks) xtol)"
    "\<exists>x0 xtol. \<forall>fsolve :: residual2 \<Rightarrow> real list \<Rightarrow> args2 \<Rightarrow> real \<Rightarrow> 'r. CO2_DIC N fsolve CO2 DIC Ks =
      Some (fsolve zero_CO2_DIC x0
              (map_nd (nominal_value N) CO2, map_nd (nominal_value N) DIC, Ks) xtol)"
    "\<exists>x0 xtol. \<forall>fsolve :: residual2 \<Rightarrow> real list \<Rightarrow> args2 \<Rightarrow> real \<Rightarrow> 'r. HCO3_CO3 N fsolve HCO3 CO3 Ks =
      Some (fsolve zero_HCO3_CO3 x0
              (map_nd (nominal_value N) HCO3, map_nd (nominal_value N) CO3, Ks) xtol)"
    "\<exists>x0 xtol. \<forall>fsolve :: residual3 \<Rightarrow> real list \<Rightarrow> args3 \<Rightarrow> real \<Rightarrow> 'r. HCO3_TA N fsolve HCO3 TA BT Ks =
      Some (fsolve zero_HCO3_TA x0
              (map_nd (nominal_value N) HCO3, map_nd (nominal_value N) TA,
               map_nd (nominal_value N) BT, Ks) xtol)"
    "\<exists>x0 xtol. \<forall>fsolve :: residual2 \<Rightarrow> real list \<Rightarrow> args2 \<Rightarrow> real \<Rightarrow> 'r. HCO3_DIC N fsolve HCO3 DIC Ks =
      Some (fsolve zero_HCO3_DIC x0
              (map_nd (nominal_value N) HCO3, map_nd (nominal_value N) DIC, Ks) xtol)"
    "\<exists>x0 xtol. \<forall>fsolve :: residual3 \<Rightarrow> real list \<Rightarrow> args3 \<Rightarrow> real \<Rightarrow> 'r. CO3_TA N fsolve CO3 TA BT Ks =
      Some (fsolve zero_CO3_TA x0
              (map_nd (nominal_value N) CO3, map_nd (nominal_value N) TA,
               map_nd (nominal_value N) BT, Ks) xtol)"
    "\<exists>x0 xtol. \<forall>fsolve :: residual2 \<Rightarrow> real list \<Rightarrow> args2 \<Rightarrow> real \<Rightarrow> 'r. CO3_DIC N fsolve CO3 DIC Ks =
      Some (fsolve zero_CO3_DIC x0
              (map_nd (nominal_value N) CO3, map_nd (nominal_value N) DIC, Ks) xtol)"
    "\<exists>x0 xtol. \<forall>fsolve :: residual3 \<Rightarrow> real list \<Rightarrow> args3 \<Rightarrow> real \<Rightarrow> 'r. TA_DIC N fsolve TA DIC BT Ks =
      Some (fsolve zero_TA_DIC x0
              (map_nd (nominal_value N) TA, map_nd (nominal_value N) DIC,
               map_nd (nominal_value N) BT, Ks) xtol)"
    unfolding CO2_HCO3_def CO2_CO3_def CO2_TA_def CO2_DIC_def HCO3_CO3_def HCO3_TA_def
      HCO3_DIC_def CO3_TA_def CO3_DIC_def TA_DIC_def lens2 lens3 noms_def
    by (intro exI allI, simp)+
  have p1:
    "(\<exists>r. CO2_pH ufloats uCO2 upH uKs = Some r \<and>
     nominal r = nominal uCO2 * (1 + nominal (K1 uKs) / (10 powr (- nominal upH)) + nominal (K1 uKs) * nominal (K2 uKs) / (10 powr (- nominal upH))\<^sup>2) \<and>
     ((\<lambda>e. u_at e uCO2 * (1 + u_at e (K1 uKs) / (10 powr (- u_at e upH)) + u_at e (K1 uKs) * u_at e (K2 uKs) / (10 powr (- u_at e upH))\<^sup>2))
       has_real_derivative sens r) (at 0))"
    by (rule CO2_pH_ufloats)
  have p2:
    "(nominal (K1 uKs) \<noteq> 0 \<longrightarrow>
      (\<exists>r. pH_HCO3 ufloats upH uHCO3 uKs = Some r \<and>
     nominal r = nominal uHCO3 * (1 + (10 powr (- nominal upH)) / nominal (K1 uKs) + nominal (K2 uKs) / (10 powr (- nominal upH))) \<and>
     ((\<lambda>e. u_at e uHCO3 * (1 + (10 powr (- u_at e upH)) / u_at e (K1 uKs) + u_at e (K2 uKs) / (10 powr (- u_at e upH))))
       has_real_derivative sens r) (at 0)))"
    by (intro impI, (elim conjE)?, rule pH_HCO3_ufloats; assumption)
  have p3:
    "(nominal (K1 uKs) \<noteq> 0 \<and> nominal (K2 uKs) \<noteq> 0 \<longrightarrow>
      (\<exists>r. pH_CO3 ufloats upH uCO3 uKs = Some r \<and>
     nominal r = nominal uCO3 * (1 + (10 powr (- nominal upH)) / nominal (K2 uKs) + (10 powr (- nominal upH))\<^sup>2 / (nominal (K1 uKs) * nominal (K2 uKs))) \<and>
     ((\<lambda>e. u_at e uCO3 * (1 + (10 powr (- u_at e upH)) / u_at e (K2 uKs) + (10 powr (- u_at e upH))\<^sup>2 / (u_at e (K1 uKs) * u_at e (K2 uKs))))
       has_real_derivative sens r) (at 0)))"
    by (intro impI, (elim conjE)?, rule pH_CO3_ufloats; assumption)
  have p4:
    "(nominal (KB uKs) + (10 powr (- nominal upH)) \<noteq> 0 \<and> nominal (K1 uKs) / (10 powr (- nominal upH)) + 2 * nominal (K1 uKs) * nominal (K2 uKs) / (10 powr (- nominal upH))\<^sup>2 \<noteq> 0 \<longrightarrow>
      (\<exists>r. pH_TA ufloats upH uTA uBT uKs = Some r \<and>
     nominal r = (nominal uTA - nominal (KB uKs) * nominal uBT / (nominal (KB uKs) + (10 powr (- nominal upH))) - nominal (KW uKs) / (10 powr (- nominal upH)) + (10 powr (- nominal upH))) / (nominal (K1 uKs) / (10 powr (- nominal upH)) + 2 * nominal (K1 uKs) * nominal (K2 uKs) / (10 powr (- nominal upH))\<^sup>2) \<and>
     ((\<lambda>e. (u_at e uTA - u_at e (KB uKs) * u_at e uBT / (u_at e (KB uKs) + (10 powr (- u_at e upH))) - u_at e (KW uKs) / (10 powr (- u_at e upH)) + (10 powr (- u_at e upH))) / (u_at e (K1 uKs) / (10 powr (- u_at e upH)) + 2 * u_at e (K1 uKs) * u_at e (K2 uKs) / (10 powr (- u_at e upH))\<^sup>2))
       has_real_derivative sens r) (at 0)))"
    by (intro impI, (elim conjE)?, rule pH_TA_ufloats; assumption)
  have p5:
    "(1 + nominal (K1 uKs) / (10 powr (- nominal upH)) + nominal (K1 uKs) * nominal (K2 uKs) / (10 powr (- nominal upH))\<^sup>2 \<noteq> 0 \<longrightarrow>
      (\<exists>r. pH_DIC ufloats upH uDIC uKs = Some r \<and>
     nominal r = nominal uDIC / (1 + nominal (K1 uKs) / (10 powr (- nominal upH)) + nominal (K1 uKs) * nominal (K2 uKs) / (10 powr (- nominal upH))\<^sup>2) \<and>
     ((\<lambda>e. u_at e uDIC / (1 + u_at e (K1 uKs) / (10 powr (- u_at e upH)) + u_at e (K1 uKs) * u_at e (K2 uKs) / (10 powr (- u_at e upH))\<^sup>2))
       has_real_derivative sens r) (at 0)))"
    by (intro impI, (elim conjE)?, rule pH_DIC_ufloats; assumption)
  have p6:
    "(nominal uH \<noteq> 0 \<and> 1 + nominal (K1 uKs) / nominal uH + nominal (K1 uKs) * nominal (K2 uKs) / (nominal uH)\<^sup>2 \<noteq> 0 \<longrightarrow>
      (\<exists>r. cCO2 ufloats uH uDIC uKs = Some r \<and>
     nominal r = nominal uDIC / (1 + nominal (K1 uKs) / nominal uH + nominal (K1 uKs) * nominal (K2 uKs) / (nominal uH)\<^sup>2) \<and>
     ((\<lambda>e. u_at e uDIC / (1 + u_at e (K1 uKs) / u_at e uH + u_at e (K1 uKs) * u_at e (K2 uKs) / (u_at e uH)\<^sup>2))
       has_real_derivative sens r) (at 0)))"
    by (intro impI, (elim conjE)?, rule cCO2_ufloats; assumption)
  have p7:
    "(nominal (K1 uKs) \<noteq> 0 \<and> nominal uH \<noteq> 0 \<and> 1 + nominal uH / nominal (K1 uKs) + nominal (K2 uKs) / nominal uH \<noteq> 0 \<longrightarrow>
      (\<exists>r. cHCO3 ufloats uH uDIC uKs = Some r \<and>
     nominal r = nominal uDIC / (1 + nominal uH / nominal (K1 uKs) + nominal (K2 uKs) / nominal uH) \<and>
     ((\<lambda>e. u_at e uDIC / (1 + u_at e uH / u_at e (K1 uKs) + u_at e (K2 uKs) / u_at e uH))
       has_real_derivative sens r) (at 0)))"
    by (intro impI, (elim conjE)?, rule cHCO3_ufloats; assumption)
  have p8:
    "(nominal (K1 uKs) \<noteq> 0 \<and> nominal (K2 uKs) \<noteq> 0 \<and> 1 + nominal uH / nominal (K2 uKs) + (nominal uH)\<^sup>2 / (nominal (K1 uKs) * nominal (K2 uKs)) \<noteq> 0 \<longrightarrow>
      (\<exists>r. cCO3 ufloats uH uDIC uKs = Some r \<and>
     nominal r = nominal uDIC / (1 + nominal uH / nominal (K2 uKs) + (nominal uH)\<^sup>2 / (nominal (K1 uKs) * nominal (K2 uKs))) \<and>
     ((\<lambda>e. u_at e uDIC / (1 + u_at e uH / u_at e (K2 uKs) + (u_at e uH)\<^sup>2 / (u_at e (K1 uKs) * u_at e (K2 uKs))))
       has_real_derivative sens r) (at 0)))"
    by (intro impI, (elim conjE)?, rule cCO3_ufloats; assumption)
  have p9:
    "(nominal uH \<noteq> 0 \<and> nominal (KB uKs) + nominal uH \<noteq> 0 \<longrightarrow>
      (\<exists>r. cTA ufloats uCO2 uH uBT uKs = Some r \<and>
     nominal r = nominal uCO2 * (nominal (K1 uKs) / nominal uH + 2 * nominal (K1 uKs) * nominal (K2 uKs) / (nominal uH)\<^sup>2) + nominal uBT * nominal (KB uKs) / (nominal (KB uKs) + nominal uH) + nominal (KW uKs) / nominal uH - nominal uH \<and>
     ((\<lambda>e. u_at e uCO2 * (u_at e (K1 uKs) / u_at e uH + 2 * u_at e (K1 uKs) * u_at e (K2 uKs) / (u_at e uH)\<^sup>2) + u_at e uBT * u_at e (KB uKs) / (u_at e (KB uKs) + u_at e uH) + u_at e (KW uKs) / u_at e uH - u_at e uH)
       has_real_derivative sens r) (at 0)))"
    by (intro impI, (elim conjE)?, rule cTA_ufloats; assumption)
  show ?thesis by (intro conjI implicit direct p1 p2 p3 p4 p5 p6 p7 p8 p9)
qed

theorem noms_only_before_root_finding_witness:
  "CO2_TA ufloats (\<lambda>f x0 a t. a) (Scalar \<lparr>nominal = 2, sens = 1 / 2\<rparr>)
      (Array [\<lparr>nominal = 3, sens = 1 / 4\<rparr>, \<lparr>nominal = 4, sens = 0\<rparr>])
      (Scalar \<lparr>nominal = 5, sens = 1\<rparr>) \<lparr>K1 = 1, K2 = 1, KB = 1, KW = 1\<rparr>
     = Some (Scalar 2, Array [3, 4], Scalar 5, \<lparr>K1 = 1, K2 = 1, KB = 1, KW = 1\<rparr>) \<and>
   cCO2 (ufloats\<lparr>nominal_value := (\<lambda>u. 0)\<rparr>) \<lparr>nominal = 1, sens = 0\<rparr> \<lparr>nominal = 3, sens = 1 / 2\<rparr>
      \<lparr>K1 = \<lparr>nominal = 1, sens = 0\<rparr>, K2 = \<lparr>nominal = 1, sens = 0\<rparr>,
       KB = \<lparr>nominal = 1, sens = 0\<rparr>, KW = \<lparr>nominal = 1, sens = 0\<rparr>\<rparr>
     = Some \<lparr>nominal = 1, sens = 1 / 6\<rparr> \<and>
   ((\<lambda>e. u_at e \<lparr>nominal = 3, sens = 1 / 2\<rparr> /
          (1 + u_at e \<lparr>nominal = 1, sens = 0\<rparr> / u_at e \<lparr>nominal = 1, sens = 0\<rparr> +
           u_at e \<lparr>nominal = 1, sens = 0\<rparr> * u_at e \<lparr>nominal = 1, sens = 0\<rparr> /
             (u_at e \<lparr>nominal = 1, sens = 0\<rparr>)\<^sup>2))
      has_real_derivative 1 / 6) (at 0)"
proof -
  note t = noms_only_before_root_finding [where ?'r = args3 and N = ufloats
      and g = "\<lambda>u. 0"
      and ?CO2.0 = "Scalar \<lparr>nominal = 2, sens = 1 / 2\<rparr>"
      and TA = "Array [\<lparr>nominal = 3, sens = 1 / 4\<rparr>, \<lparr>nominal = 4, sens = 0\<rparr>]"
      and BT = "Scalar \<lparr>nominal = 5, sens = 1\<rparr>"
      and Ks = "\<lparr>K1 = 1, K2 = 1, KB = 1, KW = 1\<rparr>"
      and H = "\<lparr>nominal = 1, sens = 0\<rparr>" and x = "\<lparr>nominal = 3, sens = 1 / 2\<rparr>"
      and Ku = "\<lparr>K1 = \<lparr>nominal = 1, sens = 0\<rparr>, K2 = \<lparr>nominal = 1, sens = 0\<rparr>,
       KB = \<lparr>nominal = 1, sens = 0\<rparr>, KW = \<lparr>nominal = 1, sens = 0\<rparr>\<rparr>"
      and uH = "\<lparr>nominal = 1, sens = 0\<rparr>" and uDIC = "\<lparr>nominal = 3, sens = 1 / 2\<rparr>"
      and uKs = "\<lparr>K1 = \<lparr>nominal = 1, sens = 0\<rparr>, K2 = \<lparr>nominal = 1, sens = 0\<rparr>,
       KB = \<lparr>nominal = 1, sens = 0\<rparr>, KW = \<lparr>nominal = 1, sens = 0\<rparr>\<rparr>"]
  from t [THEN conjunct2, THEN conjunct2, THEN conjunct1] obtain x0 xtol where 1: "\<And>fsolve :: residual3 \<Rightarrow> real list \<Rightarrow> args3 \<Rightarrow> real \<Rightarrow> args3.
      CO2_TA ufloats fsolve (Scalar \<lparr>nominal = 2, sens = 1 / 2\<rparr>)
        (Array [\<lparr>nominal = 3, sens = 1 / 4\<rparr>, \<lparr>nominal = 4, sens = 0\<rparr>])
        (Scalar \<lparr>nominal = 5, sens = 1\<rparr>) \<lparr>K1 = 1, K2 = 1, KB = 1, KW = 1\<rparr> =
      Some (fsolve zero_CO2_TA x0
        (map_nd (nominal_value ufloats) (Scalar \<lparr>nominal = 2, sens = 1 / 2\<rparr>),
         map_nd (nominal_value ufloats) (Array [\<lparr>nominal = 3, sens = 1 / 4\<rparr>, \<lparr>nominal = 4, sens = 0\<rparr>]),
         map_nd (nominal_value ufloats) (Scalar \<lparr>nominal = 5, sens = 1\<rparr>),
         \<lparr>K1 = 1, K2 = 1, KB = 1, KW = 1\<rparr>) xtol)"
    by blast
  have 2: "cCO2 (ufloats\<lparr>nominal_value := (\<lambda>u. 0)\<rparr>) \<lparr>nominal = 1, sens = 0\<rparr> \<lparr>nominal = 3, sens = 1 / 2\<rparr>
      \<lparr>K1 = \<lparr>nominal = 1, sens = 0\<rparr>, K2 = \<lparr>nominal = 1, sens = 0\<rparr>,
       KB = \<lparr>nominal = 1, sens = 0\<rparr>, KW = \<lparr>nominal = 1, sens = 0\<rparr>\<rparr>
     = cCO2 ufloats \<lparr>nominal = 1, sens = 0\<rparr> \<lparr>nominal = 3, sens = 1 / 2\<rparr>
      \<lparr>K1 = \<lparr>nominal = 1, sens = 0\<rparr>, K2 = \<lparr>nominal = 1, sens = 0\<rparr>,
       KB = \<lparr>nominal = 1, sens = 0\<rparr>, KW = \<lparr>nominal = 1, sens = 0\<rparr>\<rparr>"
    by (rule t [THEN conjunct2, THEN conjunct2, THEN conjunct2, THEN conjunct2, THEN conjunct2, THEN conjunct2, THEN conjunct2, THEN conjunct2, THEN conjunct2, THEN conjunct2, THEN conjunct2, THEN conjunct2, THEN conjunct2, THEN conjunct2, THEN conjunct2, THEN conjunct1])
  have 3: "cCO2 ufloats \<lparr>nominal = 1, sens = 0\<rparr> \<lparr>nominal = 3, sens = 1 / 2\<rparr>
      \<lparr>K1 = \<lparr>nominal = 1, sens = 0\<rparr>, K2 = \<lparr>nominal = 1, sens = 0\<rparr>,
       KB = \<lparr>nominal = 1, sens = 0\<rparr>, KW = \<lparr>nominal = 1, sens = 0\<rparr>\<rparr>
     = Some \<lparr>nominal = 1, sens = 1 / 6\<rparr>"
    by (simp add: cCO2_def ufloats_def u_div_def)
  have 4: "nominal_value ufloats = nominal" by (simp add: ufloats_def)
  from t [THEN conjunct2, THEN conjunct2, THEN conjunct2, THEN conjunct2, THEN conjunct2, THEN conjunct2, THEN conjunct2, THEN conjunct2, THEN conjunct2, THEN conjunct2, THEN conjunct2, THEN conjunct2, THEN conjunct2, THEN conjunct2, THEN conjunct2, THEN conjunct2, THEN conjunct2, THEN conjunct2, THEN conjunct2, THEN conjunct2, THEN conjunct2, THEN conjunct2, THEN conjunct2, THEN conjunct2, THEN conjunct1] have "nominal \<lparr>nominal = 1, sens = 0 :: real\<rparr> \<noteq> 0 \<and>
      1 + nominal (K1 (\<lparr>K1 = \<lparr>nominal = 1, sens = 0\<rparr>, K2 = \<lparr>nominal = 1, sens = 0\<rparr>,
       KB = \<lparr>nominal = 1, sens = 0\<rparr>, KW = \<lparr>nominal = 1, sens = 0\<rparr>\<rparr>)) / nominal \<lparr>nominal = 1, sens = 0 :: real\<rparr> +
        nominal (K1 (\<lparr>K1 = \<lparr>nominal = 1, sens = 0\<rparr>, K2 = \<lparr>nominal = 1, sens = 0\<rparr>,
       KB = \<lparr>nominal = 1, sens = 0\<rparr>, KW = \<lparr>nominal = 1, sens = 0\<rparr>\<rparr>)) * nominal (K2 (\<lparr>K1 = \<lparr>nominal = 1, sens = 0\<rparr>, K2 = \<lparr>nominal = 1, sens = 0\<rparr>,
       KB = \<lparr>nominal = 1, sens = 0\<rparr>, KW = \<lparr>nominal = 1, sens = 0\<rparr>\<rparr>)) / (nominal \<lparr>nominal = 1, sens = 0 :: real\<rparr>)\<^sup>2 \<noteq> 0 \<longrightarrow>
      (\<exists>r. cCO2 ufloats \<lparr>nominal = 1, sens = 0\<rparr> \<lparr>nominal = 3, sens = 1 / 2\<rparr> (\<lparr>K1 = \<lparr>nominal = 1, sens = 0\<rparr>, K2 = \<lparr>nominal = 1, sens = 0\<rparr>,
       KB = \<lparr>nominal = 1, sens = 0\<rparr>, KW = \<lparr>nominal = 1, sens = 0\<rparr>\<rparr>) = Some r \<and>
        nominal r = nominal \<lparr>nominal = 3, sens = 1 / 2 :: real\<rparr> /
          (1 + nominal (K1 (\<lparr>K1 = \<lparr>nominal = 1, sens = 0\<rparr>, K2 = \<lparr>nominal = 1, sens = 0\<rparr>,
       KB = \<lparr>nominal = 1, sens = 0\<rparr>, KW = \<lparr>nominal = 1, sens = 0\<rparr>\<rparr>)) / nominal \<lparr>nominal = 1, sens = 0 :: real\<rparr> +
           nominal (K1 (\<lparr>K1 = \<lparr>nominal = 1, sens = 0\<rparr>, K2 = \<lparr>nominal = 1, sens = 0\<rparr>,
       KB = \<lparr>nominal = 1, sens = 0\<rparr>, KW = \<lparr>nominal = 1, sens = 0\<rparr>\<rparr>)) * nominal (K2 (\<lparr>K1 = \<lparr>nominal = 1, sens = 0\<rparr>, K2 = \<lparr>nominal = 1, sens = 0\<rparr>,
       KB = \<lparr>nominal = 1, sens = 0\<rparr>, KW = \<lparr>nominal = 1, sens = 0\<rparr>\<rparr>)) / (nominal \<lparr>nominal = 1, sens = 0 :: real\<rparr>)\<^sup>2) \<and>
        ((\<lambda>e. u_at e \<lparr>nominal = 3, sens = 1 / 2\<rparr> /
          (1 + u_at e (K1 (\<lparr>K1 = \<lparr>nominal = 1, sens = 0\<rparr>, K2 = \<lparr>nominal = 1, sens = 0\<rparr>,
       KB = \<lparr>nominal = 1, sens = 0\<rparr>, KW = \<lparr>nominal = 1, sens = 0\<rparr>\<rparr>)) / u_at e \<lparr>nominal = 1, sens = 0\<rparr> +
           u_at e (K1 (\<lparr>K1 = \<lparr>nominal = 1, sens = 0\<rparr>, K2 = \<lparr>nominal = 1, sens = 0\<rparr>,
       KB = \<lparr>nominal = 1, sens = 0\<rparr>, KW = \<lparr>nominal = 1, sens = 0\<rparr>\<rparr>)) * u_at e (K2 (\<lparr>K1 = \<lparr>nominal = 1, sens = 0\<rparr>, K2 = \<lparr>nominal = 1, sens = 0\<rparr>,
       KB = \<lparr>nominal = 1, sens = 0\<rparr>, KW = \<lparr>nominal = 1, sens = 0\<rparr>\<rparr>)) / (u_at e \<lparr>nominal = 1, sens = 0\<rparr>)\<^sup>2))
         has_real_derivative sens r) (at 0))"
    by blast
  then have 5: "((\<lambda>e. u_at e \<lparr>nominal = 3, sens = 1 / 2\<rparr> /
          (1 + u_at e \<lparr>nominal = 1, sens = 0\<rparr> / u_at e \<lparr>nominal = 1, sens = 0\<rparr> +
           u_at e \<lparr>nominal = 1, sens = 0\<rparr> * u_at e \<lparr>nominal = 1, sens = 0\<rparr> /
             (u_at e \<lparr>nominal = 1, sens = 0\<rparr>)\<^sup>2))
      has_real_derivative 1 / 6) (at 0)"
    unfolding 3 by simp
  show ?thesis unfolding 2 3 using 5 by (simp add: 1 4)
qed

end
